theory Spec2Isabelle
  imports Complex_Main "HOL-Library.Sublist"
begin

text \<open>
  A model of the label-mapping pipeline of the financial mapper and of the parts of its
  spreadsheet parser that find year headers and remove duplicate labels: the normalizer,
  the synonym dictionary, the fuzzy matcher, the validator, the orchestration of a run,
  and the extraction of year identifiers. Every function of the program is a function
  here; an exception is a value \<open>Inl\<close> of a sum type; a loop is a recursive function or a
  \<open>fold\<close>; a dictionary is a map, or an association list where its order is used.
  Logging is left out. The definitions come first, the properties after them.
\<close>

section \<open>Strings\<close>

text \<open>
  A Python \<open>str\<close> is a sequence of Unicode code points, so a string is a list of natural
  numbers here; \<open>u\<close> turns an ASCII literal into that form.
\<close>

type_synonym ustr = "nat list"

fun ord :: "char \<Rightarrow> nat" where
  "ord (Char b0 b1 b2 b3 b4 b5 b6 b7) =
     (if b0 then 1 else 0) + 2 * ((if b1 then 1 else 0) + 2 * ((if b2 then 1 else 0) +
      2 * ((if b3 then 1 else 0) + 2 * ((if b4 then 1 else 0) + 2 * ((if b5 then 1 else 0) +
      2 * ((if b6 then 1 else 0) + 2 * (if b7 then 1 else 0)))))))"

definition u :: "string \<Rightarrow> ustr" where
  "u s = map ord s"

text \<open>
  \<open>str.strip\<close>, \<open>str.isspace\<close> and the regular-expression class \<open>\s\<close> all use the same
  predicate of the runtime on code points; this is its table.
\<close>

definition is_space :: "nat \<Rightarrow> bool" where
  "is_space c \<longleftrightarrow>
     (9 \<le> c \<and> c \<le> 13) \<or> (28 \<le> c \<and> c \<le> 32) \<or> c = 133 \<or> c = 160 \<or> c = 5760 \<or>
     (8192 \<le> c \<and> c \<le> 8202) \<or> c = 8232 \<or> c = 8233 \<or> c = 8239 \<or> c = 8287 \<or> c = 12288"

definition lstrip :: "ustr \<Rightarrow> ustr" where
  "lstrip s = dropWhile is_space s"

definition rstrip :: "ustr \<Rightarrow> ustr" where
  "rstrip s = rev (dropWhile is_space (rev s))"

definition strip :: "ustr \<Rightarrow> ustr" where
  "strip s = rstrip (lstrip s)"

definition ascii_lower :: "nat \<Rightarrow> nat" where
  "ascii_lower c = (if 65 \<le> c \<and> c \<le> 90 then c + 32 else c)"

text \<open>
  \<open>str.lower\<close>. On a string of ASCII characters it maps \<open>A\<close>..\<open>Z\<close> to \<open>a\<close>..\<open>z\<close>. On a string
  with other characters the result is given by the case tables of the Unicode database,
  which are not part of the program: they are the parameter \<open>ul\<close>, and nothing is assumed
  about it.
\<close>

definition py_lower :: "(ustr \<Rightarrow> ustr) \<Rightarrow> ustr \<Rightarrow> ustr" where
  "py_lower ul s = (if list_all (\<lambda>c. c < 128) s then map ascii_lower s else ul s)"

text \<open>\<open>s.startswith(p)\<close> and \<open>s.replace(p, r)\<close> for a non-empty \<open>p\<close>: the occurrences of
  \<open>p\<close> are replaced from left to right, without overlap.\<close>

definition startswith :: "ustr \<Rightarrow> ustr \<Rightarrow> bool" where
  "startswith s p \<longleftrightarrow> take (length p) s = p"

definition endswith :: "ustr \<Rightarrow> ustr \<Rightarrow> bool" where
  "endswith s p \<longleftrightarrow> length p \<le> length s \<and> drop (length s - length p) s = p"

function py_replace :: "ustr \<Rightarrow> ustr \<Rightarrow> ustr \<Rightarrow> ustr" where
  "py_replace p r [] = []"
| "py_replace p r (c # cs) =
     (if p \<noteq> [] \<and> startswith (c # cs) p
      then r @ py_replace p r (drop (length p) (c # cs))
      else c # py_replace p r cs)"
  by pat_completeness auto
termination
  by (relation "measure (\<lambda>(p, r, s). length s)") (auto simp: neq_Nil_conv)

section \<open>Normalizer\<close>

text \<open>
  The character class \<open>[^a-z0-9\s\-&]\<close> of \<open>_PUNCT_RE\<close>: \<open>keep_char\<close> holds of the
  characters that are \<^emph>\<open>not\<close> removed.
\<close>

definition keep_char :: "nat \<Rightarrow> bool" where
  "keep_char c \<longleftrightarrow>
     (97 \<le> c \<and> c \<le> 122) \<or> (48 \<le> c \<and> c \<le> 57) \<or> is_space c \<or> c = 45 \<or> c = 38"

text \<open>\<open>_MULTI_SPACE_RE.sub(" ", text)\<close>: every maximal run of whitespace becomes one
  space.\<close>

function collapse_ws :: "ustr \<Rightarrow> ustr" where
  "collapse_ws [] = []"
| "collapse_ws (c # cs) =
     (if is_space c then 32 # collapse_ws (dropWhile is_space cs) else c # collapse_ws cs)"
  by pat_completeness auto
termination
  by (relation "measure length") (auto simp: length_dropWhile_le less_Suc_eq_le)

text \<open>
  The two string literals that \<open>normalize_label\<close> replaces by a hyphen, as they stand in
  the source file: each is three characters long (U+00E2, U+20AC, U+201C and
  U+00E2, U+20AC, U+201D).
\<close>

definition dash_a :: ustr where
  "dash_a = [226, 8364, 8220]"

definition dash_b :: ustr where
  "dash_b = [226, 8364, 8221]"

definition normalize_label :: "(ustr \<Rightarrow> ustr) \<Rightarrow> ustr \<Rightarrow> ustr" where
  "normalize_label ul raw =
     (let text = strip raw;
          text = py_lower ul text;
          text = py_replace dash_b [45] (py_replace dash_a [45] text);
          text = filter keep_char text;
          text = strip (collapse_ws text)
      in text)"

subsection \<open>The shape of a normalised label\<close>

text \<open>
  Auxiliary predicates for the properties of \<open>normalize_label\<close>: the characters a
  normalised label can contain, and the absence of whitespace other than single spaces.
\<close>

definition low_char :: "nat \<Rightarrow> bool" where
  "low_char c \<longleftrightarrow> (97 \<le> c \<and> c \<le> 122) \<or> (48 \<le> c \<and> c \<le> 57) \<or> c = 45 \<or> c = 38 \<or> c = 32"

fun wsok :: "ustr \<Rightarrow> bool" where
  "wsok [] = True"
| "wsok (c # cs) = ((is_space c \<longrightarrow> c = 32 \<and> (cs \<noteq> [] \<longrightarrow> \<not> is_space (hd cs))) \<and> wsok cs)"

definition normal_form :: "ustr \<Rightarrow> bool" where
  "normal_form s \<longleftrightarrow> (\<forall>c \<in> set s. low_char c) \<and> wsok s \<and> strip s = s"

text \<open>A test for the normal form that only compares characters: every character is one
  of a normalised label, and a space is neither first, nor last, nor followed by a
  space.\<close>

fun sp_ok :: "ustr \<Rightarrow> bool" where
  "sp_ok [] = True"
| "sp_ok (c # cs) = ((c = 32 \<longrightarrow> cs \<noteq> [] \<and> hd cs \<noteq> 32) \<and> sp_ok cs)"

definition nf_check :: "ustr \<Rightarrow> bool" where
  "nf_check k \<longleftrightarrow> list_all low_char k \<and> sp_ok k \<and> (k = [] \<or> hd k \<noteq> 32)"

section \<open>Values\<close>

text \<open>
  A Python \<open>float\<close> is a double: a finite number, one of the two infinities, or
  not-a-number. A finite double is kept as the rational number it denotes (the sign of
  zero is not kept); \<open>round_frac\<close> below rounds a fraction to the nearest double, so that
  the finite values that \<open>float\<close> produces are doubles.
\<close>

datatype pyfloat = Fin rat | PInf | NInf | NaN

text \<open>
  The values of type \<open>Any\<close> that reach the program: \<open>None\<close>, an \<open>int\<close> (a \<open>bool\<close> is an
  \<open>int\<close>), a \<open>float\<close>, a \<open>str\<close>, and an object of any other type, of which only the name of
  its type is kept.
\<close>

datatype pyval = VNone | VInt int | VFloat pyfloat | VStr ustr | VOther string

text \<open>
  A message is kept as the pieces of the format string that builds it: literal text,
  a string inserted as it is or between apostrophes, a value inserted through \<open>str\<close>,
  \<open>repr\<close> or the format \<open>.1f\<close>, a count, and messages joined by line feeds.
\<close>

datatype part =
    Txt string
  | Str ustr
  | Quoted ustr
  | StrOf pyval
  | ReprOf pyval
  | Fix1 rat
  | Count nat
  | Lines "part list list"

type_synonym msg = "part list"

text \<open>The exceptions the modelled code raises, with their messages.\<close>

datatype error = ValueError msg | KeyError ustr | RuntimeError msg | OverflowError msg

subsection \<open>Rounding to a double\<close>

text \<open>\<open>bits n\<close> is the number of binary digits of \<open>n\<close>, and \<open>pow2 k\<close> is the power of two
  with the integer exponent \<open>k\<close>.\<close>

function bits :: "nat \<Rightarrow> nat" where
  "bits n = (if n = 0 then 0 else Suc (bits (n div 2)))"
  by pat_completeness auto
termination
  by (relation "measure id") auto

declare bits.simps [simp del]

definition pow2 :: "int \<Rightarrow> rat" where
  "pow2 k = (if 0 \<le> k then 2 ^ nat k else 1 / 2 ^ nat (- k))"

text \<open>
  The double nearest to the fraction \<open>n / d\<close> of two integers with \<open>d > 0\<close>, a tie going to
  the even significand. With \<open>a = |n|\<close>, the exponent \<open>e\<close> is such that
  \<open>2 ^ e \<le> a / d < 2 ^ (e + 1)\<close>, but not less than -1022: below that the spacing of the
  doubles stays 2 ^ -1074, so that small numbers round to subnormal numbers or to zero.
  The significand has 53 bits, so the spacing is \<open>2 ^ (e - 52)\<close>, and \<open>a / d\<close> divided by the
  spacing is rounded to an integer \<open>m\<close>. A number that rounds to 2 ^ 1024 or more becomes
  an infinity.
\<close>

definition round_frac :: "int \<Rightarrow> int \<Rightarrow> pyfloat" where
  "round_frac n d =
     (if n = 0 then Fin 0
      else
        let a = \<bar>n\<bar>;
            k = int (bits (nat a)) - int (bits (nat d));
            ge = (if 0 \<le> k then d * 2 ^ nat k \<le> a else d \<le> a * 2 ^ nat (- k));
            e = max (if ge then k else k - 1) (- 1022);
            s = e - 52;
            N = (if 0 \<le> s then a else a * 2 ^ nat (- s));
            D = (if 0 \<le> s then d * 2 ^ nat s else d);
            f = N div D;
            r = N mod D;
            m = (if 2 * r < D then f else if D < 2 * r then f + 1
                 else if even f then f else f + 1);
            v = of_int m * pow2 s
        in if 2 ^ 1024 \<le> v then (if n < 0 then NInf else PInf)
           else Fin (if n < 0 then - v else v))"

text \<open>
  \<open>float(i)\<close> of an integer is the nearest double; it raises \<open>OverflowError\<close> when that
  would be 2 ^ 1024 or more, which is so from 2 ^ 1024 - 2 ^ 970 on, half-way between
  the largest double and 2 ^ 1024.
\<close>

definition float_of_int :: "int \<Rightarrow> error + pyfloat" where
  "float_of_int i =
     (if 2 ^ 1024 - 2 ^ 970 \<le> \<bar>i\<bar>
      then Inl (OverflowError [Txt ''int too large to convert to float''])
      else Inr (round_frac i 1))"

subsection \<open>Parsing a float\<close>

definition is_digit :: "nat \<Rightarrow> bool" where
  "is_digit c \<longleftrightarrow> 48 \<le> c \<and> c \<le> 57"

text \<open>
  The decimal digits beyond ASCII. In the Unicode database (version 14, that of the
  runtime) they come in 65 runs of ten characters, with the values 0 to 9 in order;
  \<open>decimal_starts\<close> lists the first character of each run. \<open>decimal_value\<close> is the value of
  a decimal digit, and \<open>to_ascii_digit\<close> replaces a decimal digit by the ASCII digit of
  the same value.
\<close>

definition decimal_starts :: "nat list" where
  "decimal_starts =
     [1632, 1776, 1984, 2406, 2534, 2662, 2790, 2918, 3046, 3174, 3302, 3430, 3558, 3664,
      3792, 3872, 4160, 4240, 6112, 6160, 6470, 6608, 6784, 6800, 6992, 7088, 7232, 7248,
      42528, 43216, 43264, 43472, 43504, 43600, 44016, 65296, 66720, 68912, 69734, 69872,
      69942, 70096, 70384, 70736, 70864, 71248, 71360, 71472, 71904, 72016, 72784, 73040,
      73120, 92768, 92864, 93008, 120782, 120792, 120802, 120812, 120822, 123200, 123632,
      125264, 130032]"

definition decimal_value :: "nat \<Rightarrow> nat option" where
  "decimal_value c =
     (if c < 128 then (if is_digit c then Some (c - 48) else None)
      else map_option (\<lambda>s. c - s) (find (\<lambda>s. s \<le> c \<and> c < s + 10) decimal_starts))"

definition to_ascii_digit :: "nat \<Rightarrow> nat" where
  "to_ascii_digit c = (case decimal_value c of Some d \<Rightarrow> 48 + d | None \<Rightarrow> c)"

text \<open>
  \<open>digit_run\<close> reads the rest of a group of digits, after its first digit: more digits,
  each possibly preceded by one underscore. \<open>digitpart\<close> reads a whole group; it returns
  the digits read and the rest of the input.
\<close>

fun digit_run :: "ustr \<Rightarrow> nat list \<times> ustr" where
  "digit_run [] = ([], [])"
| "digit_run [c] = (if is_digit c then ([c - 48], []) else ([], [c]))"
| "digit_run (c # d # r) =
     (if is_digit c then (let (ds, r') = digit_run (d # r) in ((c - 48) # ds, r'))
      else if c = 95 \<and> is_digit d then (let (ds, r') = digit_run r in ((d - 48) # ds, r'))
      else ([], c # d # r))"

definition digitpart :: "ustr \<Rightarrow> nat list \<times> ustr" where
  "digitpart s =
     (case s of
        [] \<Rightarrow> ([], [])
      | c # cs \<Rightarrow> if is_digit c then (let (ds, r) = digit_run cs in ((c - 48) # ds, r))
                  else ([], s))"

definition digits_value :: "nat list \<Rightarrow> nat" where
  "digits_value ds = foldl (\<lambda>a d. 10 * a + d) 0 ds"

text \<open>The exponent part, after the letter \<open>e\<close>: an optional sign and a group of digits, up
  to the end of the input.\<close>

definition parse_exponent :: "ustr \<Rightarrow> int option" where
  "parse_exponent s =
     (let (neg, s') = (case s of
                         [] \<Rightarrow> (False, [])
                       | c # cs \<Rightarrow> if c = 45 then (True, cs)
                                   else if c = 43 then (False, cs) else (False, s));
          (ds, r) = digitpart s'
      in if ds = [] \<or> r \<noteq> [] then None
         else Some (if neg then - int (digits_value ds) else int (digits_value ds)))"

text \<open>An unsigned decimal number: digits, a point and digits (one of the two groups of
  digits may be missing), and an optional exponent. The result is the number as a
  fraction of two integers.\<close>

definition parse_number :: "ustr \<Rightarrow> (int \<times> int) option" where
  "parse_number s =
     (let (ip, r1) = digitpart s;
          (fp, r2) = (case r1 of
                        [] \<Rightarrow> ([], [])
                      | c # cs \<Rightarrow> if c = 46 then digitpart cs else ([], r1));
          m = int (digits_value (ip @ fp));
          d = 10 ^ length fp
      in if ip = [] \<and> fp = [] then None
         else (case r2 of
                 [] \<Rightarrow> Some (m, d)
               | c # cs \<Rightarrow>
                   if c = 101
                   then map_option
                          (\<lambda>ex. if 0 \<le> ex then (m * 10 ^ nat ex, d) else (m, d * 10 ^ nat (- ex)))
                          (parse_exponent cs)
                   else None))"

text \<open>
  \<open>float(text)\<close> on a string: decimal digits are read as the ASCII digits of their
  values, surrounding whitespace is ignored, letters are read without regard to case,
  the number is rounded to the nearest double, and \<open>None\<close> stands for the \<open>ValueError\<close> of a
  string that is not a number. The whitespace that \<open>float\<close> ignores is that of \<open>is_space\<close>
  without the four separators U+001C to U+001F.
\<close>

definition float_space :: "nat \<Rightarrow> bool" where
  "float_space c \<longleftrightarrow> is_space c \<and> \<not> (28 \<le> c \<and> c \<le> 31)"

definition float_strip :: "ustr \<Rightarrow> ustr" where
  "float_strip s = rev (dropWhile float_space (rev (dropWhile float_space s)))"

definition float_of_str :: "ustr \<Rightarrow> pyfloat option" where
  "float_of_str text =
     (let s = map ascii_lower (map to_ascii_digit (float_strip text));
          (neg, s') = (case s of
                         [] \<Rightarrow> (False, [])
                       | c # cs \<Rightarrow> if c = 45 then (True, cs)
                                   else if c = 43 then (False, cs) else (False, s))
      in if s' = u ''inf'' \<or> s' = u ''infinity'' then Some (if neg then NInf else PInf)
         else if s' = u ''nan'' then Some NaN
         else map_option (\<lambda>(n, d). round_frac (if neg then - n else n) d) (parse_number s'))"

subsection \<open>\<open>normalize_value\<close>\<close>

text \<open>
  The character class of \<open>_CURRENCY_RE\<close> as it stands in the source file: it lists the
  characters U+00E2, U+201A, U+0105, \<open>$\<close>, U+00AC, U+00C2, U+0141 and U+0104.
\<close>

definition currency_char :: "nat \<Rightarrow> bool" where
  "currency_char c \<longleftrightarrow> c \<in> {226, 8218, 261, 36, 172, 194, 321, 260}"

text \<open>
  \<open>_PAREN_NEG_RE\<close> is \<open>^\((.+)\)$\<close>, matched against a string without surrounding
  whitespace: the string is an opening parenthesis, one or more characters other than a
  line feed, and a closing parenthesis. The result is the group between the two.
\<close>

definition paren_neg_match :: "ustr \<Rightarrow> ustr option" where
  "paren_neg_match text =
     (if 3 \<le> length text \<and> hd text = 40 \<and> last text = 41 \<and> 10 \<notin> set (butlast (tl text))
      then Some (butlast (tl text)) else None)"

definition normalize_value :: "pyval \<Rightarrow> error + (pyfloat option \<times> msg list)" where
  "normalize_value raw =
     (case raw of
        VNone \<Rightarrow> Inr (None, [[Txt ''Value is None'']])
      | VInt i \<Rightarrow> (case float_of_int i of Inl e \<Rightarrow> Inl e | Inr f \<Rightarrow> Inr (Some f, []))
      | VFloat f \<Rightarrow> Inr (Some f, [])
      | VOther ty \<Rightarrow> Inr (None, [[Txt ''Unexpected value type: '', Txt ty]])
      | VStr s \<Rightarrow>
          (let text = strip s in
           if text = [] then Inr (None, [[Txt ''Value is empty string'']])
           else
             let text = strip (filter (\<lambda>c. \<not> currency_char c) text);
                 text = (case paren_neg_match text of Some g \<Rightarrow> 45 # g | None \<Rightarrow> text);
                 text = filter (\<lambda>c. c \<noteq> 44) text;
                 pct = endswith text [37];
                 text = (if pct then strip (butlast text) else text);
                 warnings = (if pct
                             then [[Txt ''Percent symbol stripped; raw value treated as number'']]
                             else [])
             in (case float_of_str text of
                   None \<Rightarrow>
                     Inr (None,
                          warnings @ [[Txt ''Cannot parse numeric value from: '', ReprOf (VStr s)]])
                 | Some v \<Rightarrow> Inr (Some v, warnings))))"

text \<open>The values that are integers too large for a double: on these, and on no others,
  the conversion \<open>float(raw)\<close> of \<open>normalize_value\<close> raises.\<close>

definition too_large :: "pyval \<Rightarrow> bool" where
  "too_large v = (case v of VInt i \<Rightarrow> 2 ^ 1024 - 2 ^ 970 \<le> \<bar>i\<bar> | _ \<Rightarrow> False)"

definition normalize_pair ::
  "(ustr \<Rightarrow> ustr) \<Rightarrow> ustr \<Rightarrow> pyval \<Rightarrow> error + (ustr \<times> pyfloat option \<times> msg list)" where
  "normalize_pair ul raw_label raw_value =
     (let label = normalize_label ul raw_label
      in case normalize_value raw_value of
           Inl e \<Rightarrow> Inl e
         | Inr (v, warnings) \<Rightarrow> Inr (label, v, warnings))"

section \<open>Canonical schema\<close>

text \<open>The values of the enumeration \<open>CanonicalField\<close>, in the order of its members.\<close>

definition canonical_fields :: "ustr list" where
  "canonical_fields =
    [u ''Current Assets'',
     u ''Current Liabilities'',
     u ''Long-term Borrowings'',
     u ''Long-term Provisions'',
     u ''Share Capital'',
     u ''Reserves & Surplus'',
     u ''Gross Profit'',
     u ''Indirect Expenses'',
     u ''Cash Sales'',
     u ''Credit Sales'',
     u ''Other Operating Income'',
     u ''Operating Expenses'',
     u ''Cash Accruals'',
     u ''Loan Installment'',
     u ''Interest'',
     u ''Opening Inventory'',
     u ''Closing Inventory'',
     u ''Net Purchases'',
     u ''Direct Expenses'',
     u ''Opening Debtors'',
     u ''Closing Debtors'',
     u ''Net Sales'',
     u ''Long-term Liabilities'',
     u ''Intangible Assets'',
     u ''Fixed Cost'',
     u ''Selling Price'',
     u ''Variable Cost'',
     u ''Net Profit'',
     u ''Net Worth'',
     u ''Total Assets'',
     u ''Total Liabilities'',
     u ''EBITDA'',
     u ''Depreciation'',
     u ''Tax'',
     u ''Revenue'',
     u ''Total Debt'',
     u ''Equity'',
     u ''Working Capital'',
     u ''Tangible Assets'',
     u ''Fixed Assets'',
     u ''Inventory'',
     u ''Trade Receivables'',
     u ''Trade Payables'',
     u ''Cash and Cash Equivalents'',
     u ''Total Income'',
     u ''Total Expenses'',
     u ''Net Revenue'',
     u ''Cost of Goods Sold'',
     u ''Operating Profit'',
     u ''Profit Before Tax'']"

definition CANONICAL_NAMES :: "ustr set" where
  "CANONICAL_NAMES = set canonical_fields"

text \<open>\<open>canonical_lookup\<close> returns the first member whose lowered value is the lowered,
  stripped name; the model returns the value of that member.\<close>

definition canonical_lookup :: "(ustr \<Rightarrow> ustr) \<Rightarrow> ustr \<Rightarrow> ustr option" where
  "canonical_lookup ul name =
     (let lower = py_lower ul (strip name)
      in find (\<lambda>f. py_lower ul f = lower) canonical_fields)"

record mapping_result =
  canonical_name :: ustr
  raw_label :: ustr
  val :: pyval
  confidence :: rat
  match_method :: string
  warnings :: "msg list"

record pipeline_output =
  mappings :: "mapping_result list"
  unmapped :: "(ustr \<times> pyval) list"
  validation_errors :: "msg list"
  validation_warnings :: "msg list"

definition success :: "pipeline_output \<Rightarrow> bool" where
  "success out \<longleftrightarrow> length (validation_errors out) = 0"

section \<open>Configuration\<close>

text \<open>The thresholds of the configuration are finite numbers.\<close>

record matching_config =
  fuzzy_threshold :: rat
  fuzzy_ambiguity_delta :: rat
  semantic_threshold :: rat
  strict_mode :: bool

record validation_config =
  required_fields :: "ustr list"
  max_absolute_value :: rat
  error_on_duplicate :: bool

record pipeline_config =
  matching :: matching_config
  validation :: validation_config
  enable_semantic_layer :: bool

definition default_matching :: matching_config where
  "default_matching =
     \<lparr>fuzzy_threshold = 80, fuzzy_ambiguity_delta = 5, semantic_threshold = 85 / 100,
      strict_mode = False\<rparr>"

definition default_validation :: validation_config where
  "default_validation =
     \<lparr>required_fields = [], max_absolute_value = 10 ^ 15, error_on_duplicate = True\<rparr>"

definition default_config :: pipeline_config where
  "default_config =
     \<lparr>matching = default_matching, validation = default_validation,
      enable_semantic_layer = False\<rparr>"

section \<open>Synonym dictionary\<close>

text \<open>The built-in table \<open>_BUILTIN_SYNONYMS\<close>, in the order of the dictionary display.\<close>

definition BUILTIN_SYNONYMS :: "(ustr \<times> ustr) list" where
  "BUILTIN_SYNONYMS =
    [(u ''current assets'', u ''Current Assets''),
     (u ''total current assets'', u ''Current Assets''),
     (u ''current assets total'', u ''Current Assets''),
     (u ''ca'', u ''Current Assets''),
     (u ''net current assets'', u ''Current Assets''),
     (u ''current liabilities'', u ''Current Liabilities''),
     (u ''total current liabilities'', u ''Current Liabilities''),
     (u ''current liabilities total'', u ''Current Liabilities''),
     (u ''cl'', u ''Current Liabilities''),
     (u ''current liabilities & provisions'', u ''Current Liabilities''),
     (u ''current liabilities and provisions'', u ''Current Liabilities''),
     (u ''long-term borrowings'', u ''Long-term Borrowings''),
     (u ''long term borrowings'', u ''Long-term Borrowings''),
     (u ''lt borrowings'', u ''Long-term Borrowings''),
     (u ''long term loans'', u ''Long-term Borrowings''),
     (u ''long-term loans'', u ''Long-term Borrowings''),
     (u ''term loans'', u ''Long-term Borrowings''),
     (u ''secured loans'', u ''Long-term Borrowings''),
     (u ''unsecured loans'', u ''Long-term Borrowings''),
     (u ''borrowings non-current'', u ''Long-term Borrowings''),
     (u ''non-current borrowings'', u ''Long-term Borrowings''),
     (u ''long-term provisions'', u ''Long-term Provisions''),
     (u ''long term provisions'', u ''Long-term Provisions''),
     (u ''lt provisions'', u ''Long-term Provisions''),
     (u ''non-current provisions'', u ''Long-term Provisions''),
     (u ''provisions non-current'', u ''Long-term Provisions''),
     (u ''share capital'', u ''Share Capital''),
     (u ''equity share capital'', u ''Share Capital''),
     (u ''paid-up capital'', u ''Share Capital''),
     (u ''paid up capital'', u ''Share Capital''),
     (u ''issued capital'', u ''Share Capital''),
     (u ''authorized capital'', u ''Share Capital''),
     (u ''authorised capital'', u ''Share Capital''),
     (u ''share capital & premium'', u ''Share Capital''),
     (u ''reserves & surplus'', u ''Reserves & Surplus''),
     (u ''reserves and surplus'', u ''Reserves & Surplus''),
     (u ''reserves'', u ''Reserves & Surplus''),
     (u ''surplus'', u ''Reserves & Surplus''),
     (u ''retained earnings'', u ''Reserves & Surplus''),
     (u ''other reserves'', u ''Reserves & Surplus''),
     (u ''general reserve'', u ''Reserves & Surplus''),
     (u ''profit & loss account'', u ''Reserves & Surplus''),
     (u ''profit and loss account'', u ''Reserves & Surplus''),
     (u ''accumulated profits'', u ''Reserves & Surplus''),
     (u ''gross profit'', u ''Gross Profit''),
     (u ''gp'', u ''Gross Profit''),
     (u ''gross margin'', u ''Gross Profit''),
     (u ''gross income'', u ''Gross Profit''),
     (u ''indirect expenses'', u ''Indirect Expenses''),
     (u ''indirect costs'', u ''Indirect Expenses''),
     (u ''overhead expenses'', u ''Indirect Expenses''),
     (u ''overheads'', u ''Indirect Expenses''),
     (u ''administrative expenses'', u ''Indirect Expenses''),
     (u ''admin expenses'', u ''Indirect Expenses''),
     (u ''cash sales'', u ''Cash Sales''),
     (u ''cash revenue'', u ''Cash Sales''),
     (u ''credit sales'', u ''Credit Sales''),
     (u ''credit revenue'', u ''Credit Sales''),
     (u ''sales on credit'', u ''Credit Sales''),
     (u ''other operating income'', u ''Other Operating Income''),
     (u ''other income'', u ''Other Operating Income''),
     (u ''non-operating income'', u ''Other Operating Income''),
     (u ''miscellaneous income'', u ''Other Operating Income''),
     (u ''operating expenses'', u ''Operating Expenses''),
     (u ''opex'', u ''Operating Expenses''),
     (u ''operational expenses'', u ''Operating Expenses''),
     (u ''cash accruals'', u ''Cash Accruals''),
     (u ''cash accrual'', u ''Cash Accruals''),
     (u ''net cash accruals'', u ''Cash Accruals''),
     (u ''loan installment'', u ''Loan Installment''),
     (u ''loan instalment'', u ''Loan Installment''),
     (u ''emi'', u ''Loan Installment''),
     (u ''loan repayment'', u ''Loan Installment''),
     (u ''debt repayment'', u ''Loan Installment''),
     (u ''interest'', u ''Interest''),
     (u ''interest expense'', u ''Interest''),
     (u ''interest cost'', u ''Interest''),
     (u ''finance cost'', u ''Interest''),
     (u ''finance costs'', u ''Interest''),
     (u ''interest paid'', u ''Interest''),
     (u ''interest on borrowings'', u ''Interest''),
     (u ''opening inventory'', u ''Opening Inventory''),
     (u ''opening stock'', u ''Opening Inventory''),
     (u ''beginning inventory'', u ''Opening Inventory''),
     (u ''inventory at beginning'', u ''Opening Inventory''),
     (u ''closing inventory'', u ''Closing Inventory''),
     (u ''closing stock'', u ''Closing Inventory''),
     (u ''ending inventory'', u ''Closing Inventory''),
     (u ''inventory at end'', u ''Closing Inventory''),
     (u ''net purchases'', u ''Net Purchases''),
     (u ''purchases'', u ''Net Purchases''),
     (u ''total purchases'', u ''Net Purchases''),
     (u ''direct expenses'', u ''Direct Expenses''),
     (u ''direct costs'', u ''Direct Expenses''),
     (u ''manufacturing expenses'', u ''Direct Expenses''),
     (u ''production expenses'', u ''Direct Expenses''),
     (u ''factory expenses'', u ''Direct Expenses''),
     (u ''opening debtors'', u ''Opening Debtors''),
     (u ''opening trade receivables'', u ''Opening Debtors''),
     (u ''debtors at beginning'', u ''Opening Debtors''),
     (u ''closing debtors'', u ''Closing Debtors''),
     (u ''closing trade receivables'', u ''Closing Debtors''),
     (u ''debtors at end'', u ''Closing Debtors''),
     (u ''net sales'', u ''Net Sales''),
     (u ''total sales'', u ''Net Sales''),
     (u ''sales'', u ''Net Sales''),
     (u ''turnover'', u ''Net Sales''),
     (u ''net turnover'', u ''Net Sales''),
     (u ''total turnover'', u ''Net Sales''),
     (u ''revenue from operations'', u ''Net Sales''),
     (u ''long-term liabilities'', u ''Long-term Liabilities''),
     (u ''long term liabilities'', u ''Long-term Liabilities''),
     (u ''non-current liabilities'', u ''Long-term Liabilities''),
     (u ''total non-current liabilities'', u ''Long-term Liabilities''),
     (u ''intangible assets'', u ''Intangible Assets''),
     (u ''goodwill'', u ''Intangible Assets''),
     (u ''patents'', u ''Intangible Assets''),
     (u ''trademarks'', u ''Intangible Assets''),
     (u ''intangibles'', u ''Intangible Assets''),
     (u ''fixed cost'', u ''Fixed Cost''),
     (u ''fixed costs'', u ''Fixed Cost''),
     (u ''fixed expenses'', u ''Fixed Cost''),
     (u ''selling price'', u ''Selling Price''),
     (u ''sale price'', u ''Selling Price''),
     (u ''sp'', u ''Selling Price''),
     (u ''variable cost'', u ''Variable Cost''),
     (u ''variable costs'', u ''Variable Cost''),
     (u ''variable expenses'', u ''Variable Cost''),
     (u ''net profit'', u ''Net Profit''),
     (u ''profit after tax'', u ''Net Profit''),
     (u ''pat'', u ''Net Profit''),
     (u ''net income'', u ''Net Profit''),
     (u ''bottom line'', u ''Net Profit''),
     (u ''profit for the year'', u ''Net Profit''),
     (u ''profit for the period'', u ''Net Profit''),
     (u ''net worth'', u ''Net Worth''),
     (u ''networth'', u ''Net Worth''),
     (u ''owner funds'', u ''Net Worth''),
     (u ''owners funds'', u ''Net Worth''),
     (u ''shareholders funds'', u ''Net Worth''),
     (u ''shareholders equity'', u ''Net Worth''),
     (u ''stockholders equity'', u ''Net Worth''),
     (u ''total equity'', u ''Net Worth''),
     (u ''total assets'', u ''Total Assets''),
     (u ''total asset'', u ''Total Assets''),
     (u ''total liabilities'', u ''Total Liabilities''),
     (u ''total liability'', u ''Total Liabilities''),
     (u ''ebitda'', u ''EBITDA''),
     (u ''operating profit before depreciation'', u ''EBITDA''),
     (u ''earnings before interest tax depreciation & amortization'', u ''EBITDA''),
     (u ''depreciation'', u ''Depreciation''),
     (u ''depreciation & amortization'', u ''Depreciation''),
     (u ''depreciation and amortisation'', u ''Depreciation''),
     (u ''dep'', u ''Depreciation''),
     (u ''tax'', u ''Tax''),
     (u ''income tax'', u ''Tax''),
     (u ''provision for tax'', u ''Tax''),
     (u ''tax expense'', u ''Tax''),
     (u ''taxation'', u ''Tax''),
     (u ''revenue'', u ''Revenue''),
     (u ''total revenue'', u ''Revenue''),
     (u ''gross revenue'', u ''Revenue''),
     (u ''income from operations'', u ''Revenue''),
     (u ''total debt'', u ''Total Debt''),
     (u ''total borrowings'', u ''Total Debt''),
     (u ''debt'', u ''Total Debt''),
     (u ''equity'', u ''Equity''),
     (u ''owner equity'', u ''Equity''),
     (u ''equity capital'', u ''Equity''),
     (u ''working capital'', u ''Working Capital''),
     (u ''net working capital'', u ''Working Capital''),
     (u ''tangible assets'', u ''Tangible Assets''),
     (u ''net tangible assets'', u ''Tangible Assets''),
     (u ''property plant & equipment'', u ''Tangible Assets''),
     (u ''property plant and equipment'', u ''Tangible Assets''),
     (u ''ppe'', u ''Tangible Assets''),
     (u ''fixed assets'', u ''Fixed Assets''),
     (u ''non-current assets'', u ''Fixed Assets''),
     (u ''total fixed assets'', u ''Fixed Assets''),
     (u ''net fixed assets'', u ''Fixed Assets''),
     (u ''net block'', u ''Fixed Assets''),
     (u ''gross block'', u ''Fixed Assets''),
     (u ''inventory'', u ''Inventory''),
     (u ''inventories'', u ''Inventory''),
     (u ''stock'', u ''Inventory''),
     (u ''stocks'', u ''Inventory''),
     (u ''trade receivables'', u ''Trade Receivables''),
     (u ''sundry debtors'', u ''Trade Receivables''),
     (u ''accounts receivable'', u ''Trade Receivables''),
     (u ''debtors'', u ''Trade Receivables''),
     (u ''trade payables'', u ''Trade Payables''),
     (u ''sundry creditors'', u ''Trade Payables''),
     (u ''accounts payable'', u ''Trade Payables''),
     (u ''creditors'', u ''Trade Payables''),
     (u ''cash and cash equivalents'', u ''Cash and Cash Equivalents''),
     (u ''cash & cash equivalents'', u ''Cash and Cash Equivalents''),
     (u ''cash and bank balances'', u ''Cash and Cash Equivalents''),
     (u ''cash & bank balances'', u ''Cash and Cash Equivalents''),
     (u ''cash'', u ''Cash and Cash Equivalents''),
     (u ''bank balance'', u ''Cash and Cash Equivalents''),
     (u ''total income'', u ''Total Income''),
     (u ''total expenses'', u ''Total Expenses''),
     (u ''total expenditure'', u ''Total Expenses''),
     (u ''net revenue'', u ''Net Revenue''),
     (u ''cost of goods sold'', u ''Cost of Goods Sold''),
     (u ''cogs'', u ''Cost of Goods Sold''),
     (u ''cost of sales'', u ''Cost of Goods Sold''),
     (u ''cost of revenue'', u ''Cost of Goods Sold''),
     (u ''operating profit'', u ''Operating Profit''),
     (u ''ebit'', u ''Operating Profit''),
     (u ''earnings before interest and tax'', u ''Operating Profit''),
     (u ''operating income'', u ''Operating Profit''),
     (u ''profit before tax'', u ''Profit Before Tax''),
     (u ''pbt'', u ''Profit Before Tax''),
     (u ''earnings before tax'', u ''Profit Before Tax''),
     (u ''income before tax'', u ''Profit Before Tax''),
     (u ''assets'', u ''Total Assets''),
     (u ''total assets (ta)'', u ''Total Assets''),
     (u ''liabilities'', u ''Total Liabilities''),
     (u ''total liabilities (tl)'', u ''Total Liabilities''),
     (u ''borrowings'', u ''Total Debt''),
     (u ''earnings'', u ''Net Profit''),
     (u ''eat'', u ''Net Profit''),
     (u ''sales'', u ''Net Sales''),
     (u ''sale'', u ''Net Sales''),
     (u ''sales revenue'', u ''Net Sales''),
     (u ''revenue from sales'', u ''Net Sales''),
     (u ''earnings from operations'', u ''Operating Profit''),
     (u ''short term borrowings'', u ''Current Liabilities''),
     (u ''st borrowings'', u ''Current Liabilities''),
     (u ''long form liabilities'', u ''Long-term Liabilities''),
     (u ''nd'', u ''Long-term Borrowings''),
     (u ''current borrowings'', u ''Short-term Borrowings''),
     (u ''floating cash'', u ''Cash and Cash Equivalents''),
     (u ''bank'', u ''Cash and Cash Equivalents''),
     (u ''cash balance'', u ''Cash and Cash Equivalents'')]"

text \<open>
  The dictionary of a \<open>SynonymMapper\<close> is a map from normalised variants to canonical
  names. The constructor normalises every built-in key again, a later entry replacing
  an earlier one with the same key, and then adds the extra synonyms.
\<close>

type_synonym synonyms = "ustr \<rightharpoonup> ustr"

definition lookup :: "synonyms \<Rightarrow> ustr \<Rightarrow> ustr option" where
  "lookup d normalised_label = d normalised_label"

definition add_synonym ::
  "(ustr \<Rightarrow> ustr) \<Rightarrow> synonyms \<Rightarrow> ustr \<Rightarrow> ustr \<Rightarrow> error + synonyms" where
  "add_synonym ul d variant canonical =
     (if canonical \<notin> CANONICAL_NAMES
      then (case canonical_lookup ul canonical of
              None \<Rightarrow>
                Inl (ValueError [Txt ''Unknown canonical name '', ReprOf (VStr canonical),
                       Txt ''. Must be one of the CanonicalField values.''])
            | Some cf \<Rightarrow> Inr (d(normalize_label ul variant \<mapsto> cf)))
      else Inr (d(normalize_label ul variant \<mapsto> canonical)))"

text \<open>\<open>add_synonyms\<close> adds the entries in order and stops at the first error.\<close>

fun add_synonyms ::
  "(ustr \<Rightarrow> ustr) \<Rightarrow> synonyms \<Rightarrow> (ustr \<times> ustr) list \<Rightarrow> error + synonyms" where
  "add_synonyms ul d [] = Inr d"
| "add_synonyms ul d ((variant, canonical) # rest) =
     (case add_synonym ul d variant canonical of
        Inl e \<Rightarrow> Inl e
      | Inr d' \<Rightarrow> add_synonyms ul d' rest)"

definition builtin_dict :: "(ustr \<Rightarrow> ustr) \<Rightarrow> synonyms" where
  "builtin_dict ul =
     fold (\<lambda>(variant, canonical) d. d(normalize_label ul variant \<mapsto> canonical))
       BUILTIN_SYNONYMS Map.empty"

definition synonym_mapper_init ::
  "(ustr \<Rightarrow> ustr) \<Rightarrow> (ustr \<times> ustr) list \<Rightarrow> error + synonyms" where
  "synonym_mapper_init ul extra_synonyms = add_synonyms ul (builtin_dict ul) extra_synonyms"

section \<open>Fuzzy matcher\<close>

text \<open>
  A Python dictionary keeps its keys in the order of their first insertion; where that
  order is used, a dictionary is an association list, and \<open>dict_set\<close> is the assignment
  \<open>d[k] = v\<close>.
\<close>

fun dict_set :: "('k \<times> 'v) list \<Rightarrow> 'k \<Rightarrow> 'v \<Rightarrow> ('k \<times> 'v) list" where
  "dict_set [] k v = [(k, v)]"
| "dict_set ((k', v') # d) k v = (if k' = k then (k, v) # d else (k', v') # dict_set d k v)"

record fuzzy_candidate =
  cand_name :: ustr
  score :: rat
  is_ambiguous :: bool

record fuzzy_matcher =
  fm_config :: matching_config
  targets :: "(ustr \<times> ustr) list"
  target_keys :: "ustr list"

text \<open>
  The constructor. \<open>names\<close> is the set \<open>CANONICAL_NAMES\<close> in the order in which the runtime
  iterates over it.
\<close>

definition fuzzy_matcher_init ::
  "(ustr \<Rightarrow> ustr) \<Rightarrow> ustr list \<Rightarrow> matching_config \<Rightarrow> ustr list \<Rightarrow> fuzzy_matcher" where
  "fuzzy_matcher_init ul names cfg extra_targets =
     (let t = fold (\<lambda>name d. dict_set d (py_lower ul name) name) names [];
          t = fold (\<lambda>x d. dict_set d (py_lower ul x) x) extra_targets t
      in \<lparr>fm_config = cfg, targets = t, target_keys = map fst t\<rparr>)"

text \<open>
  \<open>process.extract\<close> and the scorer \<open>fuzz.token_sort_ratio\<close> belong to the library
  rapidfuzz, not to the program. The scorer is a parameter: any function from the query
  and a choice to a score. \<open>process_extract\<close> follows the library's documentation: every choice
  is scored, the results \<open>(choice, score, index)\<close> are ordered by falling score, choices
  of equal score in the order of the list, and the first \<open>limit\<close> are returned.
\<close>

definition process_extract ::
  "(ustr \<Rightarrow> ustr \<Rightarrow> rat) \<Rightarrow> ustr \<Rightarrow> ustr list \<Rightarrow> nat \<Rightarrow> (ustr \<times> rat \<times> nat) list" where
  "process_extract scorer query choices limit =
     take limit
       (sort_key (\<lambda>(c, s, i). - s)
          (map (\<lambda>(i, c). (c, scorer query c, i)) (enumerate 0 choices)))"

definition match ::
  "(ustr \<Rightarrow> ustr \<Rightarrow> rat) \<Rightarrow> fuzzy_matcher \<Rightarrow> ustr \<Rightarrow> error + fuzzy_candidate option" where
  "match scorer fm normalised_label =
     (if normalised_label = [] then Inr None
      else
        (case process_extract scorer normalised_label (target_keys fm) 5 of
           [] \<Rightarrow> Inr None
         | (best_key, best_score, _) # rest \<Rightarrow>
             if best_score < fuzzy_threshold (fm_config fm) then Inr None
             else
               let is_amb = (case rest of
                               [] \<Rightarrow> False
                             | (_, second_score, _) # _ \<Rightarrow>
                                 best_score - second_score \<le> fuzzy_ambiguity_delta (fm_config fm))
               in (case map_of (targets fm) best_key of
                     None \<Rightarrow> Inl (KeyError best_key)
                   | Some canonical \<Rightarrow>
                       Inr (Some \<lparr>cand_name = canonical, score = best_score,
                                  is_ambiguous = is_amb\<rparr>))))"

text \<open>The invariant of a constructed matcher: the list of keys is the list of the keys
  of the dictionary of targets.\<close>

definition wf_matcher :: "fuzzy_matcher \<Rightarrow> bool" where
  "wf_matcher fm \<longleftrightarrow> target_keys fm = map fst (targets fm)"

text \<open>A scorer and a matcher with two targets, for examples.\<close>

definition exact_scorer :: "ustr \<Rightarrow> ustr \<Rightarrow> rat" where
  "exact_scorer q c = (if q = c then 100 else 0)"

definition small_matcher :: fuzzy_matcher where
  "small_matcher = fuzzy_matcher_init id [u ''Tax'', u ''Equity''] default_matching []"

section \<open>Validator\<close>

record validation_report =
  errors :: "msg list"
  report_warnings :: "msg list"

definition empty_report :: validation_report where
  "empty_report = \<lparr>errors = [], report_warnings = []\<rparr>"

definition is_valid :: "validation_report \<Rightarrow> bool" where
  "is_valid r \<longleftrightarrow> length (errors r) = 0"

definition add_error :: "validation_report \<Rightarrow> msg \<Rightarrow> validation_report" where
  "add_error r m = r\<lparr>errors := errors r @ [m]\<rparr>"

definition add_warning :: "validation_report \<Rightarrow> msg \<Rightarrow> validation_report" where
  "add_warning r m = r\<lparr>report_warnings := report_warnings r @ [m]\<rparr>"

definition duplicate_msg :: "ustr \<Rightarrow> ustr \<Rightarrow> ustr \<Rightarrow> msg" where
  "duplicate_msg name first again =
     [Txt ''Duplicate canonical mapping '', Quoted name, Txt '': first from '', Quoted first,
      Txt '', again from '', Quoted again]"

text \<open>The loop of \<open>_check_duplicates\<close>, with its dictionary \<open>seen\<close>.\<close>

fun check_duplicates_loop ::
  "validation_config \<Rightarrow> mapping_result list \<Rightarrow> (ustr \<rightharpoonup> ustr) \<Rightarrow> validation_report \<Rightarrow>
   validation_report" where
  "check_duplicates_loop cfg [] seen report = report"
| "check_duplicates_loop cfg (m # ms) seen report =
     (case seen (canonical_name m) of
        Some first \<Rightarrow>
          (let msg = duplicate_msg (canonical_name m) first (raw_label m)
           in check_duplicates_loop cfg ms seen
                (if error_on_duplicate cfg then add_error report msg
                 else add_warning report msg))
      | None \<Rightarrow>
          check_duplicates_loop cfg ms (seen(canonical_name m \<mapsto> raw_label m)) report)"

definition check_duplicates ::
  "validation_config \<Rightarrow> mapping_result list \<Rightarrow> validation_report \<Rightarrow> validation_report" where
  "check_duplicates cfg ms report = check_duplicates_loop cfg ms Map.empty report"

definition check_required_fields ::
  "validation_config \<Rightarrow> mapping_result list \<Rightarrow> validation_report \<Rightarrow> validation_report" where
  "check_required_fields cfg ms report =
     (if required_fields cfg = [] then report
      else
        let mapped_names = set (map canonical_name ms)
        in fold (\<lambda>req r. if req \<notin> mapped_names
                          then add_error r [Txt ''Required field missing: '', Quoted req]
                          else r)
             (required_fields cfg) report)"

text \<open>
  The tests of \<open>_check_values\<close> on one value: \<open>isinstance(v, (int, float))\<close>,
  \<open>math.isnan(v) or math.isinf(v)\<close>, and \<open>abs(v) > max_absolute_value\<close>. The value of a
  mapping of a run is a float or \<open>None\<close>, as \<open>normalize_value\<close> returns it. The tests are
  modelled on every value; on an integer they are taken on the integer itself, so the
  \<open>OverflowError\<close> of \<open>math.isnan\<close> on an integer too large for a double, which only a caller
  that builds such a mapping by hand can reach, is not modelled.
\<close>

fun is_number :: "pyval \<Rightarrow> bool" where
  "is_number (VInt i) = True"
| "is_number (VFloat f) = True"
| "is_number v = False"

fun non_finite :: "pyval \<Rightarrow> bool" where
  "non_finite (VFloat NaN) = True"
| "non_finite (VFloat PInf) = True"
| "non_finite (VFloat NInf) = True"
| "non_finite v = False"

fun abs_exceeds :: "pyval \<Rightarrow> rat \<Rightarrow> bool" where
  "abs_exceeds (VInt i) mx = (\<bar>of_int i\<bar> > mx)"
| "abs_exceeds (VFloat (Fin q)) mx = (\<bar>q\<bar> > mx)"
| "abs_exceeds (VFloat PInf) mx = True"
| "abs_exceeds (VFloat NInf) mx = True"
| "abs_exceeds v mx = False"

definition non_finite_msg :: "mapping_result \<Rightarrow> msg" where
  "non_finite_msg m = [Quoted (canonical_name m), Txt '' has non-finite value: '', StrOf (val m)]"

definition check_value ::
  "validation_config \<Rightarrow> mapping_result \<Rightarrow> validation_report \<Rightarrow> validation_report" where
  "check_value cfg m report =
     (if val m = VNone
      then add_warning report
             [Quoted (canonical_name m), Txt '' (from '', Quoted (raw_label m),
              Txt '') has value None'']
      else if \<not> is_number (val m)
      then add_warning report
             [Quoted (canonical_name m), Txt '' has non-numeric value: '', ReprOf (val m)]
      else if non_finite (val m)
      then add_error report (non_finite_msg m)
      else if abs_exceeds (val m) (max_absolute_value cfg)
      then add_warning report
             [Quoted (canonical_name m), Txt '' value '', StrOf (val m),
              Txt '' exceeds max_absolute_value ('',
              StrOf (VFloat (Fin (max_absolute_value cfg))), Txt ''). Possible unit error?'']
      else report)"

definition check_values ::
  "validation_config \<Rightarrow> mapping_result list \<Rightarrow> validation_report \<Rightarrow> validation_report" where
  "check_values cfg ms report = fold (check_value cfg) ms report"

definition validate :: "validation_config \<Rightarrow> mapping_result list \<Rightarrow> validation_report" where
  "validate cfg ms =
     (let report = empty_report;
          report = check_duplicates cfg ms report;
          report = check_required_fields cfg ms report;
          report = check_values cfg ms report
      in report)"

section \<open>Pipeline\<close>

text \<open>
  The state of a \<open>FinancialMappingPipeline\<close> after its construction: the configuration,
  the synonym dictionary and the fuzzy matcher. The optional file of custom synonyms is
  not modelled (\<open>custom_synonym_path\<close> is \<open>None\<close>).
\<close>

record pipeline =
  config :: pipeline_config
  synonyms :: synonyms
  fuzzy :: fuzzy_matcher

definition pipeline_init ::
  "(ustr \<Rightarrow> ustr) \<Rightarrow> ustr list \<Rightarrow> pipeline_config \<Rightarrow> (ustr \<times> ustr) list \<Rightarrow> error + pipeline" where
  "pipeline_init ul names cfg extra_synonyms =
     (case synonym_mapper_init ul extra_synonyms of
        Inl e \<Rightarrow> Inl e
      | Inr d \<Rightarrow>
          Inr \<lparr>config = cfg, synonyms = d,
               fuzzy = fuzzy_matcher_init ul names (matching cfg) []\<rparr>)"

text \<open>The value of a \<open>MappingResult\<close> is the optional float that \<open>normalize_value\<close>
  returns.\<close>

fun opt_val :: "pyfloat option \<Rightarrow> pyval" where
  "opt_val None = VNone"
| "opt_val (Some f) = VFloat f"

definition conflict_msg :: "ustr \<Rightarrow> ustr \<Rightarrow> ustr \<Rightarrow> msg" where
  "conflict_msg name prev now =
     [Txt ''Duplicate mapping to '', Quoted name, Txt '': previously mapped from '', Quoted prev,
      Txt '', now also from '', Quoted now]"

text \<open>\<open>_build_result\<close> returns the result and the updated dictionary
  \<open>seen_canonical\<close>.\<close>

definition build_result ::
  "ustr \<Rightarrow> ustr \<Rightarrow> pyfloat option \<Rightarrow> rat \<Rightarrow> string \<Rightarrow> msg list \<Rightarrow> (ustr \<rightharpoonup> ustr) \<Rightarrow>
   mapping_result \<times> (ustr \<rightharpoonup> ustr)" where
  "build_result cname raw v conf method ws seen_canonical =
     (let (ws', seen') =
            (case seen_canonical cname of
               Some prev \<Rightarrow> (ws @ [conflict_msg cname prev raw], seen_canonical)
             | None \<Rightarrow> (ws, seen_canonical(cname \<mapsto> raw)))
      in (\<lparr>canonical_name = cname, raw_label = raw, val = opt_val v, confidence = conf,
           match_method = method, warnings = ws'\<rparr>, seen'))"

text \<open>The semantic layer is a placeholder that finds nothing.\<close>

definition semantic_match :: "ustr \<Rightarrow> (ustr \<times> rat) option" where
  "semantic_match normalised_label = None"

definition ambiguous_msg :: "ustr \<Rightarrow> fuzzy_candidate \<Rightarrow> msg" where
  "ambiguous_msg raw c =
     [Txt ''Ambiguous fuzzy match for '', Quoted raw, Txt '' '', Str [8594], Txt '' '',
      Quoted (cand_name c), Txt '' (score='', Fix1 (score c), Txt '')'']"

definition map_single ::
  "(ustr \<Rightarrow> ustr) \<Rightarrow> (ustr \<Rightarrow> ustr \<Rightarrow> rat) \<Rightarrow> pipeline \<Rightarrow> ustr \<Rightarrow> pyval \<Rightarrow> (ustr \<rightharpoonup> ustr) \<Rightarrow>
   error + (mapping_result option \<times> (ustr \<rightharpoonup> ustr))" where
  "map_single ul scorer p raw raw_value seen_canonical =
     (case normalize_pair ul raw raw_value of
        Inl e \<Rightarrow> Inl e
      | Inr (norm_label, v, value_warnings) \<Rightarrow>
          (let ws = value_warnings
           in case lookup (synonyms p) norm_label of
                Some canonical \<Rightarrow>
                  (let (r, seen') = build_result canonical raw v 100 ''synonym'' ws seen_canonical
                   in Inr (Some r, seen'))
              | None \<Rightarrow>
                  (case match scorer (fuzzy p) norm_label of
                     Inl e \<Rightarrow> Inl e
                   | Inr (Some candidate) \<Rightarrow>
                       (let ws = (if is_ambiguous candidate
                                  then ws @ [ambiguous_msg raw candidate] else ws);
                            (r, seen') = build_result (cand_name candidate) raw v
                                           (score candidate) ''fuzzy'' ws seen_canonical
                        in Inr (Some r, seen'))
                   | Inr None \<Rightarrow>
                       (if enable_semantic_layer (config p)
                        then (case semantic_match norm_label of
                                Some (can_name, sc) \<Rightarrow>
                                  (let (r, seen') = build_result can_name raw v (sc * 100)
                                                      ''semantic'' ws seen_canonical
                                   in Inr (Some r, seen'))
                              | None \<Rightarrow> Inr (None, seen_canonical))
                        else Inr (None, seen_canonical)))))"

text \<open>The loop of \<open>_run\<close> over the pairs, with the lists \<open>mappings\<close> and \<open>unmapped\<close> and
  the dictionary \<open>seen_canonical\<close>.\<close>

fun map_pairs ::
  "(ustr \<Rightarrow> ustr) \<Rightarrow> (ustr \<Rightarrow> ustr \<Rightarrow> rat) \<Rightarrow> pipeline \<Rightarrow> (ustr \<times> pyval) list \<Rightarrow>
   mapping_result list \<Rightarrow> (ustr \<times> pyval) list \<Rightarrow> (ustr \<rightharpoonup> ustr) \<Rightarrow>
   error + (mapping_result list \<times> (ustr \<times> pyval) list)" where
  "map_pairs ul scorer p [] ms um seen_canonical = Inr (ms, um)"
| "map_pairs ul scorer p ((raw, raw_value) # rest) ms um seen_canonical =
     (case map_single ul scorer p raw raw_value seen_canonical of
        Inl e \<Rightarrow> Inl e
      | Inr (Some r, seen') \<Rightarrow> map_pairs ul scorer p rest (ms @ [r]) um seen'
      | Inr (None, seen') \<Rightarrow> map_pairs ul scorer p rest ms (um @ [(raw, raw_value)]) seen')"

definition build_output ::
  "mapping_result list \<Rightarrow> (ustr \<times> pyval) list \<Rightarrow> msg list \<Rightarrow> msg list \<Rightarrow> pipeline_output" where
  "build_output ms um errs warns =
     \<lparr>mappings = ms, unmapped = um, validation_errors = errs, validation_warnings = warns\<rparr>"

text \<open>
  \<open>_run\<close>. The message of the \<open>RuntimeError\<close> of strict mode is the text
  \<open>Strict mode: pipeline produced n validation error(s):\<close>, with the number \<open>n\<close> of errors,
  followed by the errors of the report, one on a line.
\<close>

definition run ::
  "(ustr \<Rightarrow> ustr) \<Rightarrow> (ustr \<Rightarrow> ustr \<Rightarrow> rat) \<Rightarrow> pipeline \<Rightarrow> (ustr \<times> pyval) list \<Rightarrow>
   error + pipeline_output" where
  "run ul scorer p pairs =
     (case map_pairs ul scorer p pairs [] [] Map.empty of
        Inl e \<Rightarrow> Inl e
      | Inr (ms, um) \<Rightarrow>
          (let report = validate (validation (config p)) ms;
               output = build_output ms um (errors report) (report_warnings report)
           in if strict_mode (matching (config p)) \<and> \<not> success output
              then Inl (RuntimeError
                          [Txt ''Strict mode: pipeline produced '', Count (length (errors report)),
                           Txt '' validation error(s):'', Lines (errors report)])
              else Inr output))"

text \<open>\<open>map_dict\<close> runs the pipeline on the items of the dictionary, in their order.\<close>

definition map_dict ::
  "(ustr \<Rightarrow> ustr) \<Rightarrow> (ustr \<Rightarrow> ustr \<Rightarrow> rat) \<Rightarrow> pipeline \<Rightarrow> (ustr \<times> pyval) list \<Rightarrow>
   error + pipeline_output" where
  "map_dict ul scorer p data = run ul scorer p data"

text \<open>The pipeline that the constructor builds from a configuration when there are no
  extra synonyms.\<close>

definition plain_pipeline :: "(ustr \<Rightarrow> ustr) \<Rightarrow> ustr list \<Rightarrow> pipeline_config \<Rightarrow> pipeline" where
  "plain_pipeline ul names cfg =
     \<lparr>config = cfg, synonyms = builtin_dict ul,
      fuzzy = fuzzy_matcher_init ul names (matching cfg) []\<rparr>"

text \<open>A strict configuration that requires the field \<open>Net Profit\<close>, the same
  configuration without strict mode, and a pipeline with an empty dictionary, two
  targets and the threshold 0, for examples.\<close>

definition strict_config :: pipeline_config where
  "strict_config =
     \<lparr>matching = default_matching\<lparr>strict_mode := True\<rparr>,
      validation = default_validation\<lparr>required_fields := [u ''Net Profit'']\<rparr>,
      enable_semantic_layer = False\<rparr>"

definition lenient_config :: pipeline_config where
  "lenient_config =
     \<lparr>matching = default_matching,
      validation = default_validation\<lparr>required_fields := [u ''Net Profit'']\<rparr>,
      enable_semantic_layer = False\<rparr>"

definition small_pipeline :: pipeline where
  "small_pipeline =
     \<lparr>config = default_config, synonyms = Map.empty,
      fuzzy = small_matcher\<lparr>fm_config := default_matching\<lparr>fuzzy_threshold := 0\<rparr>\<rparr>\<rparr>"

section \<open>Spreadsheet parser\<close>

text \<open>
  The value of a cell, as the spreadsheet reader delivers it: empty, an integer (a
  boolean is an integer), a finite floating-point number, a string, a \<open>datetime\<close> (of which
  only year, month and day are used), or an object of another type.
\<close>

datatype cell = CNone | CInt int | CFloat rat | CText ustr | CDate nat nat nat | COther

subsection \<open>Year identifiers\<close>

text \<open>The decimal numeral of a natural number, and the same padded with zeros on the left
  to a given width.\<close>

function str_nat :: "nat \<Rightarrow> ustr" where
  "str_nat n = (if n < 10 then [48 + n] else str_nat (n div 10) @ [48 + n mod 10])"
  by pat_completeness auto
termination
  by (relation "measure id") auto

declare str_nat.simps [simp del]

definition zfill :: "nat \<Rightarrow> ustr \<Rightarrow> ustr" where
  "zfill w s = replicate (w - length s) 48 @ s"

text \<open>
  The regular expressions of \<open>_extract_year_from_header\<close>. The classes \<open>\d\<close> and \<open>\w\<close> of
  the runtime follow the Unicode database: \<open>\d\<close> is a decimal digit, and \<open>\w\<close> is an
  alphanumeric character (which a decimal digit is) or the underscore. Which
  characters beyond ASCII are alphanumeric is the parameter \<open>alnum\<close>, about which nothing
  is assumed. A pattern is a function that tells whether it matches at a position,
  given the character before the position (if there is one) and the text from the
  position on; \<open>re_search\<close> returns the leftmost match.
\<close>

definition re_digit :: "nat \<Rightarrow> bool" where
  "re_digit c \<longleftrightarrow> decimal_value c \<noteq> None"

definition is_word :: "(nat \<Rightarrow> bool) \<Rightarrow> nat \<Rightarrow> bool" where
  "is_word alnum c \<longleftrightarrow>
     (if c < 128 then is_digit c \<or> (65 \<le> c \<and> c \<le> 90) \<or> (97 \<le> c \<and> c \<le> 122) \<or> c = 95
      else alnum c \<or> re_digit c)"

definition is_sep :: "nat \<Rightarrow> bool" where
  "is_sep c \<longleftrightarrow> c = 45 \<or> c = 47"

text \<open>\<open>\b\<close> before a word character and after a word character.\<close>

definition boundary_before :: "(nat \<Rightarrow> bool) \<Rightarrow> nat option \<Rightarrow> bool" where
  "boundary_before alnum prev = (case prev of None \<Rightarrow> True | Some c \<Rightarrow> \<not> is_word alnum c)"

definition boundary_after :: "(nat \<Rightarrow> bool) \<Rightarrow> ustr \<Rightarrow> bool" where
  "boundary_after alnum rest = (case rest of [] \<Rightarrow> True | c # _ \<Rightarrow> \<not> is_word alnum c)"

fun re_search :: "(nat option \<Rightarrow> ustr \<Rightarrow> 'a option) \<Rightarrow> nat option \<Rightarrow> ustr \<Rightarrow> 'a option" where
  "re_search m prev [] = m prev []"
| "re_search m prev (c # cs) =
     (case m prev (c # cs) of Some r \<Rightarrow> Some r | None \<Rightarrow> re_search m (Some c) cs)"

text \<open>Pattern 1, \<open>\b(\d{2})[-/](\d{2})[-/](\d{4})\b\<close>; the result is
  \<open>group 3 - group 2 - group 1\<close>.\<close>

definition pattern1 :: "(nat \<Rightarrow> bool) \<Rightarrow> nat option \<Rightarrow> ustr \<Rightarrow> ustr option" where
  "pattern1 alnum prev s =
     (if 10 \<le> length s \<and> boundary_before alnum prev \<and>
         list_all re_digit (take 2 s) \<and> is_sep (s ! 2) \<and>
         list_all re_digit (take 2 (drop 3 s)) \<and> is_sep (s ! 5) \<and>
         list_all re_digit (take 4 (drop 6 s)) \<and> boundary_after alnum (drop 10 s)
      then Some (take 4 (drop 6 s) @ [45] @ take 2 (drop 3 s) @ [45] @ take 2 s)
      else None)"

text \<open>Pattern 2, \<open>\b(\d{4})[-/](\d{2})[-/](\d{2})\b\<close>; the result is the match with
  every \<open>/\<close> replaced by \<open>-\<close>.\<close>

definition pattern2 :: "(nat \<Rightarrow> bool) \<Rightarrow> nat option \<Rightarrow> ustr \<Rightarrow> ustr option" where
  "pattern2 alnum prev s =
     (if 10 \<le> length s \<and> boundary_before alnum prev \<and>
         list_all re_digit (take 4 s) \<and> is_sep (s ! 4) \<and>
         list_all re_digit (take 2 (drop 5 s)) \<and> is_sep (s ! 7) \<and>
         list_all re_digit (take 2 (drop 8 s)) \<and> boundary_after alnum (drop 10 s)
      then Some (map (\<lambda>c. if c = 47 then 45 else c) (take 10 s))
      else None)"

text \<open>Pattern 3, \<open>\b(20\d{2})\b\<close>; the result is the group.\<close>

definition pattern3 :: "(nat \<Rightarrow> bool) \<Rightarrow> nat option \<Rightarrow> ustr \<Rightarrow> ustr option" where
  "pattern3 alnum prev s =
     (if 4 \<le> length s \<and> boundary_before alnum prev \<and> s ! 0 = 50 \<and> s ! 1 = 48 \<and>
         list_all re_digit (take 2 (drop 2 s)) \<and> boundary_after alnum (drop 4 s)
      then Some (take 4 s)
      else None)"

text \<open>Pattern 4, \<open>FY\s*(\d{4})\<close> without regard to case; the result is \<open>FY\<close> and the
  group.\<close>

definition pattern4 :: "(nat \<Rightarrow> bool) \<Rightarrow> nat option \<Rightarrow> ustr \<Rightarrow> ustr option" where
  "pattern4 alnum prev s =
     (if 2 \<le> length s \<and> (s ! 0 = 70 \<or> s ! 0 = 102) \<and> (s ! 1 = 89 \<or> s ! 1 = 121)
      then (let r = dropWhile is_space (drop 2 s)
            in if 4 \<le> length r \<and> list_all re_digit (take 4 r)
               then Some (u ''FY'' @ take 4 r) else None)
      else None)"

text \<open>\<open>int(cell)\<close> of a finite float rounds towards zero.\<close>

definition trunc :: "rat \<Rightarrow> int" where
  "trunc q = (if 0 \<le> q then \<lfloor>q\<rfloor> else \<lceil>q\<rceil>)"

definition year_of_int :: "int \<Rightarrow> ustr option" where
  "year_of_int year_num =
     (if 2000 \<le> year_num \<and> year_num \<le> 2100 then Some (str_nat (nat year_num)) else None)"

text \<open>
  \<open>_extract_year_from_header\<close>. A date is formatted by \<open>strftime("%Y-%m-%d")\<close>: the month
  and the day have two digits; the year is written as the C library writes it, which
  is without padding here (the dates of a spreadsheet have years of four digits).
\<close>

definition extract_year_from_header :: "(nat \<Rightarrow> bool) \<Rightarrow> cell \<Rightarrow> ustr option" where
  "extract_year_from_header alnum c =
     (case c of
        CDate y m d \<Rightarrow>
          Some (str_nat y @ [45] @ zfill 2 (str_nat m) @ [45] @ zfill 2 (str_nat d))
      | CInt i \<Rightarrow> year_of_int i
      | CFloat q \<Rightarrow> year_of_int (trunc q)
      | CText t \<Rightarrow>
          (let text = strip t in
           case re_search (pattern1 alnum) None text of
             Some r \<Rightarrow> Some r
           | None \<Rightarrow>
               (case re_search (pattern2 alnum) None text of
                  Some r \<Rightarrow> Some r
                | None \<Rightarrow>
                    (case re_search (pattern3 alnum) None text of
                       Some r \<Rightarrow> Some r
                     | None \<Rightarrow> re_search (pattern4 alnum) None text)))
      | _ \<Rightarrow> None)"

subsection \<open>Year headers of the value columns\<close>

text \<open>
  The part of the layout that \<open>_extract_year_headers\<close> reads: the value columns and the
  optional header row (row 0 when the layout has none). Columns and rows are counted
  from 0. The dictionary \<open>year_headers\<close> keeps the order of insertion.
\<close>

record layout =
  label_col :: nat
  value_cols :: "nat list"
  header_row :: "nat option"

definition header_row_idx :: "layout \<Rightarrow> nat" where
  "header_row_idx l = (case header_row l of None \<Rightarrow> 0 | Some h \<Rightarrow> h)"

definition scan_cell ::
  "(nat \<Rightarrow> bool) \<Rightarrow> cell list \<Rightarrow> nat \<Rightarrow> (nat \<times> ustr) list \<Rightarrow> (nat \<times> ustr) list" where
  "scan_cell alnum row col_idx year_headers =
     (if col_idx < length row \<and> map_of year_headers col_idx = None
      then (case extract_year_from_header alnum (row ! col_idx) of
              Some year \<Rightarrow> if year \<noteq> [] then dict_set year_headers col_idx year
                           else year_headers
            | None \<Rightarrow> year_headers)
      else year_headers)"

definition scan_row ::
  "(nat \<Rightarrow> bool) \<Rightarrow> cell list list \<Rightarrow> layout \<Rightarrow> int \<Rightarrow> (nat \<times> ustr) list \<Rightarrow>
   (nat \<times> ustr) list" where
  "scan_row alnum grid l row_offset year_headers =
     (let row_idx = int (header_row_idx l) + row_offset
      in if 0 \<le> row_idx \<and> row_idx < int (length grid)
         then fold (scan_cell alnum (grid ! nat row_idx)) (value_cols l) year_headers
         else year_headers)"

definition default_label :: "nat \<Rightarrow> ustr" where
  "default_label i = u ''Year '' @ str_nat (i + 1)"

definition extract_year_headers ::
  "(nat \<Rightarrow> bool) \<Rightarrow> cell list list \<Rightarrow> layout \<Rightarrow> (nat \<times> ustr) list" where
  "extract_year_headers alnum grid l =
     (let year_headers = fold (scan_row alnum grid l) [0, - 1, 1, - 2] []
      in if year_headers = []
         then fold (\<lambda>(i, col_idx) yh. dict_set yh col_idx (default_label i))
                (enumerate 0 (value_cols l)) year_headers
         else year_headers)"

text \<open>
  No cell that \<open>_extract_year_headers\<close> looks at yields an identifier: the cells of the
  value columns in the rows at the offsets 0, -1, 1 and -2 from the header row, as far
  as they exist.
\<close>

definition no_year_in :: "(nat \<Rightarrow> bool) \<Rightarrow> cell list list \<Rightarrow> layout \<Rightarrow> bool" where
  "no_year_in alnum grid l \<longleftrightarrow>
     list_all (\<lambda>off. list_all (\<lambda>col.
        0 \<le> int (header_row_idx l) + off \<longrightarrow> int (header_row_idx l) + off < int (length grid) \<longrightarrow>
        col < length (grid ! nat (int (header_row_idx l) + off)) \<longrightarrow>
        extract_year_from_header alnum (grid ! nat (int (header_row_idx l) + off) ! col) = None)
          (value_cols l)) [0, - 1, 1, - 2]"

text \<open>
  The value columns that the layout detection produces: the columns of a header row
  that hold a date or a number between 2000 and 2100 (\<open>date_cols\<close>), and, in the generic
  layout, the columns other than the label column with more than two numeric cells, or
  else the column to the right of the label column if there is one, or else the label
  column. \<open>col_num_count\<close> is the list of the numbers of numeric cells of the columns;
  it has \<open>max_cols\<close> elements.
\<close>

fun is_year_cell :: "cell \<Rightarrow> bool" where
  "is_year_cell (CDate y m d) = True"
| "is_year_cell (CInt i) = (2000 \<le> i \<and> i \<le> 2100)"
| "is_year_cell (CFloat q) = (2000 \<le> q \<and> q \<le> 2100)"
| "is_year_cell c = False"

definition date_cols :: "cell list \<Rightarrow> nat list" where
  "date_cols row = map fst (filter (\<lambda>(j, c). is_year_cell c) (enumerate 0 row))"

definition generic_value_cols :: "nat list \<Rightarrow> nat \<Rightarrow> nat \<Rightarrow> nat list" where
  "generic_value_cols col_num_count lc max_cols =
     (let vc = filter (\<lambda>j. col_num_count ! j > 2 \<and> j \<noteq> lc) [0..<max_cols]
      in if vc = [] then (if lc + 1 < max_cols then [lc + 1] else [lc]) else vc)"

subsection \<open>Deduplication within a year\<close>

text \<open>
  The loop that removes duplicates from the pairs of one year, with its dictionary
  \<open>seen\<close> and its list \<open>deduped\<close>. The key of a pair is its label, stripped and lowered.
\<close>

definition label_key :: "(ustr \<Rightarrow> ustr) \<Rightarrow> ustr \<times> 'v \<Rightarrow> ustr" where
  "label_key ul p = py_lower ul (strip (fst p))"

fun dedup_loop ::
  "(ustr \<Rightarrow> ustr) \<Rightarrow> (ustr \<times> 'v) list \<Rightarrow> (ustr \<rightharpoonup> 'v) \<Rightarrow> (ustr \<times> 'v) list \<Rightarrow> (ustr \<times> 'v) list" where
  "dedup_loop ul [] seen deduped = deduped"
| "dedup_loop ul ((label, v) # rest) seen deduped =
     (let key = py_lower ul (strip label)
      in if seen key = None
         then dedup_loop ul rest (seen(key \<mapsto> v)) (deduped @ [(label, v)])
         else dedup_loop ul rest seen deduped)"

definition dedup :: "(ustr \<Rightarrow> ustr) \<Rightarrow> (ustr \<times> 'v) list \<Rightarrow> (ustr \<times> 'v) list" where
  "dedup ul pairs = dedup_loop ul pairs Map.empty []"

text \<open>
  \<open>parse_file\<close> when all years are extracted. Reading the workbook and parsing each
  sheet is left to the caller: \<open>sheets\<close> is the list of the results of
  \<open>_parse_sheet_multi_year\<close>, one dictionary from years to pairs for each sheet. The pairs
  of a year are collected over the sheets, and then each year is deduplicated.
\<close>

definition merge_sheet ::
  "(ustr \<times> (ustr \<times> 'v) list) list \<Rightarrow> (ustr \<times> (ustr \<times> 'v) list) list \<Rightarrow>
   (ustr \<times> (ustr \<times> 'v) list) list" where
  "merge_sheet sheet_year_data year_data =
     fold (\<lambda>(year, pairs) yd.
             (case map_of yd year of
                None \<Rightarrow> dict_set yd year pairs
              | Some old \<Rightarrow> dict_set yd year (old @ pairs)))
       sheet_year_data year_data"

definition parse_file_all_years ::
  "(ustr \<Rightarrow> ustr) \<Rightarrow> (ustr \<times> (ustr \<times> 'v) list) list list \<Rightarrow>
   (ustr \<times> (ustr \<times> 'v) list) list" where
  "parse_file_all_years ul sheets =
     map (\<lambda>(year, pairs). (year, dedup ul pairs)) (fold merge_sheet sheets [])"

text \<open>The pairs of a list that are kept when the keys in \<open>S\<close> have been seen: a pair is
  kept when its key has not been seen, and then its key has been seen.\<close>

fun keep_first :: "('a \<Rightarrow> 'k) \<Rightarrow> 'k set \<Rightarrow> 'a list \<Rightarrow> 'a list" where
  "keep_first key S [] = []"
| "keep_first key S (x # xs) =
     (if key x \<in> S then keep_first key S xs else x # keep_first key (insert (key x) S) xs)"

text \<open>
  \<open>parse_file\<close> when one year is selected by \<open>year_index\<close>. Here \<open>sheets\<close> is the list of the
  results of \<open>_parse_sheet\<close>, one list of pairs for each sheet; they are joined into
  \<open>all_pairs\<close>. The loop under the comment \<open>Deduplicate\<close> records the key of every pair in
  \<open>seen\<close> and appends every pair to \<open>deduped\<close>, which is the result.
\<close>

fun legacy_loop ::
  "(ustr \<Rightarrow> ustr) \<Rightarrow> (ustr \<times> 'v) list \<Rightarrow> (ustr \<rightharpoonup> 'v) \<Rightarrow> (ustr \<times> 'v) list \<Rightarrow> (ustr \<times> 'v) list" where
  "legacy_loop ul [] seen deduped = deduped"
| "legacy_loop ul ((label, v) # rest) seen deduped =
     (let key = py_lower ul (strip label)
      in legacy_loop ul rest (seen(key \<mapsto> v)) (deduped @ [(label, v)]))"

definition parse_file_one_year ::
  "(ustr \<Rightarrow> ustr) \<Rightarrow> (ustr \<times> 'v) list list \<Rightarrow> (ustr \<times> 'v) list" where
  "parse_file_one_year ul sheets =
     (let all_pairs = concat sheets
      in legacy_loop ul all_pairs Map.empty [])"

text \<open>A sheet in the generic layout, without year headers, and the parameter without
  alphanumeric characters beyond ASCII, for examples.\<close>

definition no_alnum :: "nat \<Rightarrow> bool" where
  "no_alnum c = False"

definition example_grid :: "cell list list" where
  "example_grid =
     [[CText (u ''Particulars''), CText (u ''Amount''), CText (u ''Previous'')],
      [CText (u ''Sales''), CInt 500, CInt 400],
      [CText (u ''Tax''), CInt 50, CInt 40],
      [CText (u ''Cash''), CInt 5, CInt 4]]"

definition example_layout :: layout where
  "example_layout = \<lparr>label_col = 0, value_cols = generic_value_cols [0, 3, 3] 0 3,
     header_row = None\<rparr>"

section \<open>Properties of the normalizer\<close>



lemma hd_collapse_ws: "cs \<noteq> [] \<Longrightarrow> \<not> is_space (hd cs) \<Longrightarrow> collapse_ws cs \<noteq> [] \<and> hd (collapse_ws cs) = hd cs"
  by (cases cs) auto

lemma dropWhile_hd: "dropWhile P xs \<noteq> [] \<Longrightarrow> \<not> P (hd (dropWhile P xs))"
  by (simp add: hd_dropWhile)

lemma wsok_collapse_ws: "wsok (collapse_ws s)"
proof (induction s rule: collapse_ws.induct)
  case 1 show ?case by simp
next
  case (2 c cs)
  show ?case
  proof (cases "is_space c")
    case True
    have "collapse_ws (dropWhile is_space cs) \<noteq> [] \<Longrightarrow> \<not> is_space (hd (collapse_ws (dropWhile is_space cs)))"
    proof -
      assume a: "collapse_ws (dropWhile is_space cs) \<noteq> []"
      then have ne: "dropWhile is_space cs \<noteq> []" by (cases "dropWhile is_space cs") simp_all
      then have "\<not> is_space (hd (dropWhile is_space cs))" by (rule dropWhile_hd)
      with ne hd_collapse_ws show ?thesis by simp
    qed
    with True 2 show ?thesis by simp
  next
    case False
    with 2 show ?thesis by simp
  qed
qed

lemma wsok_fix: "wsok s \<Longrightarrow> collapse_ws s = s"
proof (induction s rule: collapse_ws.induct)
  case 1 show ?case by simp
next
  case (2 c cs)
  show ?case
  proof (cases "is_space c")
    case True
    with 2 have "dropWhile is_space cs = cs" by (cases cs) auto
    with True 2 show ?thesis by simp
  next
    case False
    with 2 show ?thesis by simp
  qed
qed

lemma wsok_append: "wsok (xs @ ys) \<Longrightarrow> wsok xs"
  by (induction xs) (auto simp: hd_append)

lemma wsok_dropWhile: "wsok s \<Longrightarrow> wsok (dropWhile P s)"
  by (induction s) auto

lemma rstrip_prefix: "\<exists>zs. s = rstrip s @ zs"
proof -
  have "rev (dropWhile is_space (rev s)) @ rev (takeWhile is_space (rev s))
        = rev (takeWhile is_space (rev s) @ dropWhile is_space (rev s))"
    by (simp only: rev_append)
  also have "\<dots> = s" by (simp only: takeWhile_dropWhile_id rev_rev_ident)
  finally have "s = rstrip s @ rev (takeWhile is_space (rev s))" by (simp only: rstrip_def)
  then show ?thesis ..
qed

lemma wsok_strip: "wsok s \<Longrightarrow> wsok (strip s)"
proof -
  assume "wsok s"
  then have w: "wsok (lstrip s)" by (simp add: lstrip_def wsok_dropWhile)
  obtain zs where "lstrip s = rstrip (lstrip s) @ zs" using rstrip_prefix by blast
  then have "wsok (rstrip (lstrip s) @ zs)" using w by simp
  then show ?thesis unfolding strip_def by (rule wsok_append)
qed

lemma set_rstrip: "x \<in> set (rstrip s) \<Longrightarrow> x \<in> set s"
  unfolding rstrip_def by (auto dest: set_dropWhileD)

lemma set_strip: "x \<in> set (strip s) \<Longrightarrow> x \<in> set s"
  unfolding strip_def lstrip_def by (auto dest: set_rstrip set_dropWhileD)

lemma rstrip_idem: "rstrip (rstrip s) = rstrip s"
  by (simp add: rstrip_def dropWhile_idem)

lemma lstrip_rstrip: "lstrip s = s \<Longrightarrow> lstrip (rstrip s) = rstrip s"
proof (cases "rstrip s")
  case Nil then show ?thesis by (simp add: lstrip_def)
next
  case (Cons a as)
  assume l: "lstrip s = s"
  obtain zs where z: "s = rstrip s @ zs" using rstrip_prefix by blast
  then have "hd s = a" using Cons by (metis hd_append2 list.sel(1) list.distinct(1))
  moreover have "s \<noteq> []" using z Cons by auto
  ultimately have "\<not> is_space a" using l unfolding lstrip_def by (metis hd_dropWhile)
  then show ?thesis using Cons by (simp add: lstrip_def)
qed

lemma strip_idem: "strip (strip s) = strip s"
proof -
  have "lstrip (lstrip s) = lstrip s" by (simp add: lstrip_def dropWhile_idem)
  then have "lstrip (rstrip (lstrip s)) = rstrip (lstrip s)" by (rule lstrip_rstrip)
  then show ?thesis by (simp add: strip_def rstrip_idem)
qed

lemma low_char_lt: "low_char c \<Longrightarrow> c < 128"
  unfolding low_char_def by arith

lemma low_char_lower: "low_char c \<Longrightarrow> ascii_lower c = c"
  unfolding low_char_def ascii_lower_def by simp arith

lemma low_char_keep: "low_char c \<Longrightarrow> keep_char c"
  unfolding low_char_def keep_char_def is_space_def by arith

lemma low_char_226: "low_char c \<Longrightarrow> c \<noteq> 226"
  unfolding low_char_def by arith

lemma keep_low: "keep_char c \<Longrightarrow> \<not> is_space c \<Longrightarrow> low_char c"
  unfolding low_char_def keep_char_def by blast

lemma low_32: "low_char 32"
  unfolding low_char_def by simp

lemma set_collapse_ws: "\<forall>c \<in> set s. keep_char c \<Longrightarrow> \<forall>c \<in> set (collapse_ws s). low_char c"
proof (induction s rule: collapse_ws.induct)
  case 1 show ?case by simp
next
  case (2 c cs)
  show ?case
  proof (cases "is_space c")
    case True
    have "\<forall>c \<in> set (dropWhile is_space cs). keep_char c" using 2(3) by (auto dest: set_dropWhileD)
    with True 2 show ?thesis by (simp add: low_32)
  next
    case False
    with 2 show ?thesis by (simp add: keep_low)
  qed
qed

lemma py_replace_absent: "p \<noteq> [] \<Longrightarrow> hd p \<notin> set s \<Longrightarrow> py_replace p r s = s"
proof (induction p r s rule: py_replace.induct)
  case (1 p r) show ?case by simp
next
  case (2 p r c cs)
  have "\<not> startswith (c # cs) p" using 2(3,4) by (cases p) (auto simp: startswith_def)
  with 2 show ?case by simp
qed

lemma low_lower: "\<forall>c \<in> set s. low_char c \<Longrightarrow> py_lower ul s = s"
proof -
  assume a: "\<forall>c \<in> set s. low_char c"
  then have "\<forall>c \<in> set s. c < 128" by (simp add: low_char_lt)
  moreover have "map ascii_lower s = s" using a by (simp add: map_idI low_char_lower)
  ultimately show ?thesis by (simp add: py_lower_def list_all_iff)
qed

lemma normal_form_fix: "normal_form s \<Longrightarrow> normalize_label ul s = s"
proof -
  assume n: "normal_form s"
  then have lc: "\<forall>c \<in> set s. low_char c" and w: "wsok s" and st: "strip s = s"
    by (simp_all add: normal_form_def)
  have a: "(226::nat) \<notin> set s" using lc low_char_226 by blast
  have k: "filter keep_char s = s" using lc by (simp add: low_char_keep)
  show ?thesis
    unfolding normalize_label_def Let_def
    by (simp add: st low_lower [OF lc] py_replace_absent a dash_a_def dash_b_def k wsok_fix [OF w])
qed

lemma normal_form_normalize_label: "normal_form (normalize_label ul raw)"
proof -
  let ?t = "filter keep_char (py_replace dash_b [45] (py_replace dash_a [45] (py_lower ul (strip raw))))"
  have "\<forall>c \<in> set ?t. keep_char c" by simp
  then have "\<forall>c \<in> set (collapse_ws ?t). low_char c" by (rule set_collapse_ws)
  then have 1: "\<forall>c \<in> set (strip (collapse_ws ?t)). low_char c" by (auto dest: set_strip)
  have 2: "wsok (strip (collapse_ws ?t))" by (simp add: wsok_strip wsok_collapse_ws)
  show ?thesis unfolding normal_form_def normalize_label_def Let_def
    using 1 2 by (simp add: strip_idem)
qed

text \<open>The equations that evaluate \<open>normalize_label\<close> on a given string.\<close>

lemmas label_eval = u_def normalize_label_def strip_def lstrip_def rstrip_def is_space_def
  py_lower_def ascii_lower_def dash_a_def dash_b_def startswith_def keep_char_def

lemma normalize_label_example:
  "normalize_label ul (u ''  Profit After   Tax '') = u ''profit after tax''"
  by (simp add: label_eval)

text \<open>
  \<^bold>\<open>C7.\<close> \<open>normalize_label\<close> is idempotent: for every string \<open>s\<close>, normalising the
  normalised label gives the normalised label again. This holds whatever the case
  mapping of the runtime does on strings with non-ASCII characters.
\<close>

theorem normalize_label_idempotent:
  "normalize_label ul (normalize_label ul s) = normalize_label ul s"
  by (rule normal_form_fix [OF normal_form_normalize_label])

theorem normalize_label_idempotent_witness:
  "normalize_label id (normalize_label id (u ''  Profit After   Tax '')) = u ''profit after tax''"
  using normalize_label_idempotent [of id "u ''  Profit After   Tax ''"]
  by (simp only: normalize_label_example)

section \<open>Properties of \<open>normalize_value\<close>\<close>

lemma bits_0: "bits 0 = 0"
  by (simp add: bits.simps)

lemma bits_pos: "0 < n \<Longrightarrow> bits n = Suc (bits (n div 2))"
  by (subst bits.simps) simp

lemmas round_eval = bits_0 bits_pos pow2_def round_frac_def float_of_int_def Let_def

lemmas value_eval = u_def strip_def lstrip_def rstrip_def is_space_def ascii_lower_def is_digit_def
  decimal_value_def decimal_starts_def to_ascii_digit_def float_space_def float_strip_def
  digitpart_def digits_value_def parse_exponent_def parse_number_def float_of_str_def
  currency_char_def paren_neg_match_def normalize_value_def endswith_def round_eval

lemma normalize_value_paren:
  "normalize_value (VStr (u ''(5,000)'')) = Inr (Some (Fin (- 5000)), [])"
  by (simp add: value_eval)

lemma normalize_value_rupee:
  "normalize_value (VStr (8377 # u ''12,000'')) =
     Inr (None, [[Txt ''Cannot parse numeric value from: '', ReprOf (VStr (8377 # u ''12,000''))]])"
  by (simp add: value_eval)

lemma normalize_value_none:
  "normalize_value VNone = Inr (None, [[Txt ''Value is None'']])"
  by (simp add: normalize_value_def)

lemma normalize_value_percent:
  "normalize_value (VStr (u ''12.5%'')) =
     Inr (Some (Fin (25 / 2)), [[Txt ''Percent symbol stripped; raw value treated as number'']])"
  by (simp add: value_eval)

text \<open>An integer within the range of the doubles gives its nearest double and no warning;
  a greater one raises \<open>OverflowError\<close>. No other value raises.\<close>

lemma normalize_value_int:
  "\<bar>i\<bar> < 2 ^ 1024 - 2 ^ 970 \<Longrightarrow> normalize_value (VInt i) = Inr (Some (round_frac i 1), [])"
  by (simp add: normalize_value_def float_of_int_def)

lemma normalize_value_overflow:
  "2 ^ 1024 - 2 ^ 970 \<le> \<bar>i\<bar> \<Longrightarrow>
   normalize_value (VInt i) = Inl (OverflowError [Txt ''int too large to convert to float''])"
  by (simp add: normalize_value_def float_of_int_def)

lemma normalize_value_returns:
  "\<not> too_large v \<Longrightarrow> \<exists>x w. normalize_value v = Inr (x, w)"
  by (cases v) (simp_all add: normalize_value_def too_large_def float_of_int_def Let_def
      split: option.splits)

lemma normalize_value_raises:
  "too_large v \<Longrightarrow>
   normalize_value v = Inl (OverflowError [Txt ''int too large to convert to float''])"
  by (cases v) (simp_all add: too_large_def normalize_value_overflow)

lemma float_of_int_500000: "float_of_int 500000 = Inr (Fin 500000)"
  by (simp add: round_eval)

lemma too_large_huge: "too_large (VInt (10 ^ 400))"
  by (simp add: too_large_def)

text \<open>\<open>float\<close> reads the full-width digits U+FF11 and U+FF12 as 12, and it does not ignore
  the separator U+001C before a number.\<close>

lemma float_of_str_fullwidth: "float_of_str [65297, 65298] = Some (Fin 12)"
  by (simp add: value_eval)

lemma float_of_str_separator: "float_of_str [28, 53] = None"
  by (simp add: value_eval)

text \<open>
  \<^bold>\<open>C4.\<close> The results of \<open>normalize_value\<close> on the four inputs of the claim. Three of them
  are as the claim says: \<open>"(5,000)"\<close> gives \<open>-5000.0\<close>, \<open>None\<close> gives no value and exactly one
  warning, and \<open>"12.5%"\<close> gives \<open>12.5\<close> with the warning that the percent symbol was stripped
  and the raw value kept. On the rupee amount (the sign U+20B9 followed by \<open>12,000\<close>) the
  result is no value and a cannot-parse warning, not \<open>12000.0\<close>: the character class
  \<open>_CURRENCY_RE\<close> of the source file does not contain the rupee sign.
\<close>

theorem normalize_value_examples:
  "normalize_value (VStr (u ''(5,000)'')) = Inr (Some (Fin (- 5000)), []) \<and>
   normalize_value (VStr (8377 # u ''12,000'')) =
     Inr (None, [[Txt ''Cannot parse numeric value from: '', ReprOf (VStr (8377 # u ''12,000''))]]) \<and>
   normalize_value VNone = Inr (None, [[Txt ''Value is None'']]) \<and>
   normalize_value (VStr (u ''12.5%'')) =
     Inr (Some (Fin (25 / 2)), [[Txt ''Percent symbol stripped; raw value treated as number'']])"
  by (simp only: normalize_value_paren normalize_value_rupee normalize_value_none
      normalize_value_percent simp_thms)

theorem normalize_value_examples_witness:
  "normalize_value (VStr (8377 # u ''12,000'')) =
     Inr (None, [[Txt ''Cannot parse numeric value from: '', ReprOf (VStr (8377 # u ''12,000''))]])"
  using normalize_value_examples by simp

section \<open>Properties of the validator\<close>









section \<open>Properties of the fuzzy matcher\<close>

lemma process_extract_subset:
  "(c, s, i) \<in> set (process_extract scorer q choices limit) \<Longrightarrow> c \<in> set choices \<and> s = scorer q c"
proof -
  assume "(c, s, i) \<in> set (process_extract scorer q choices limit)"
  then have "(c, s, i) \<in> set (map (\<lambda>(i, c). (c, scorer q c, i)) (enumerate 0 choices))"
    unfolding process_extract_def by (auto dest: in_set_takeD)
  then obtain j c' where "(j, c') \<in> set (enumerate 0 choices)" and "c = c'" and "s = scorer q c'"
    by auto
  then show ?thesis by (auto simp: in_set_enumerate_eq)
qed

lemma sort_key_hd_min:
  "sort_key f xs = y # ys \<Longrightarrow> x \<in> set xs \<Longrightarrow> f y \<le> f x"
proof -
  assume a: "sort_key f xs = y # ys" and x: "x \<in> set xs"
  have "sorted (map f (sort_key f xs))" by simp
  then have "\<forall>z \<in> set ys. f y \<le> f z" using a by simp
  moreover have "x \<in> set (y # ys)" using x a by (metis set_sort)
  ultimately show ?thesis by auto
qed

lemma process_extract_best:
  "process_extract scorer q choices limit = (k, s, i) # rest \<Longrightarrow> t \<in> set choices \<Longrightarrow>
   scorer q t \<le> s"
proof -
  assume e: "process_extract scorer q choices limit = (k, s, i) # rest" and t: "t \<in> set choices"
  let ?f = "\<lambda>(c, s, i). - s :: rat"
  let ?ys = "map (\<lambda>(i, c). (c, scorer q c, i)) (enumerate 0 choices)"
  obtain zs where z: "sort_key ?f ?ys = (k, s, i) # zs"
    using e unfolding process_extract_def by (cases "sort_key ?f ?ys"; cases limit) auto
  obtain j where "j < length choices" and "choices ! j = t" using t by (auto simp: in_set_conv_nth)
  then have "(j, t) \<in> set (enumerate 0 choices)" by (auto simp: in_set_enumerate_eq)
  then have "(t, scorer q t, j) \<in> set ?ys" by force
  from sort_key_hd_min [OF z this] show ?thesis by simp
qed

lemma wf_fuzzy_matcher_init: "wf_matcher (fuzzy_matcher_init ul names cfg extra)"
  by (simp add: wf_matcher_def fuzzy_matcher_init_def Let_def)

lemma match_no_error: "wf_matcher fm \<Longrightarrow> match scorer fm l \<noteq> Inl e"
proof -
  assume wf: "wf_matcher fm"
  have k: "\<And>k s i rest. process_extract scorer l (target_keys fm) 5 = (k, s, i) # rest \<Longrightarrow>
              map_of (targets fm) k \<noteq> None"
  proof -
    fix k s i rest
    assume "process_extract scorer l (target_keys fm) 5 = (k, s, i) # rest"
    then have "(k, s, i) \<in> set (process_extract scorer l (target_keys fm) 5)" by simp
    then have "k \<in> set (target_keys fm)" by (rule process_extract_subset [THEN conjunct1])
    then have "k \<in> fst ` set (targets fm)" using wf by (simp add: wf_matcher_def)
    then show "map_of (targets fm) k \<noteq> None" by (simp add: map_of_eq_None_iff)
  qed
  show ?thesis
    unfolding match_def
    by (auto split: list.splits option.splits prod.splits dest: k simp: Let_def)
qed

lemma match_empty: "match scorer fm [] = Inr None"
  by (simp add: match_def)

lemma match_some_threshold:
  "match scorer fm l = Inr (Some c) \<Longrightarrow> fuzzy_threshold (fm_config fm) \<le> score c"
  unfolding match_def
  by (auto split: if_splits list.splits option.splits prod.splits simp: Let_def)

lemma match_some_best:
  "match scorer fm l = Inr (Some c) \<Longrightarrow> t \<in> set (target_keys fm) \<Longrightarrow> scorer l t \<le> score c"
  unfolding match_def
  by (auto split: if_splits list.splits option.splits prod.splits simp: Let_def
      dest: process_extract_best)

lemma match_below_threshold:
  assumes "\<forall>t \<in> set (target_keys fm). scorer l t < fuzzy_threshold (fm_config fm)"
  shows "match scorer fm l = Inr None"
proof (cases "l = []")
  case True
  then show ?thesis by (simp add: match_def)
next
  case False
  show ?thesis
  proof (cases "process_extract scorer l (target_keys fm) 5")
    case Nil
    with False show ?thesis by (simp add: match_def)
  next
    case (Cons x rest)
    obtain k s i where x: "x = (k, s, i)" by (cases x)
    have "(k, s, i) \<in> set (process_extract scorer l (target_keys fm) 5)" using Cons x by simp
    then have "k \<in> set (target_keys fm)" and "s = scorer l k"
      using process_extract_subset by blast+
    then have "s < fuzzy_threshold (fm_config fm)" using assms by simp
    with False Cons x show ?thesis by (simp add: match_def)
  qed
qed

text \<open>
  \<^bold>\<open>C6.\<close> For every scorer, every matcher and every label: a candidate that \<open>match\<close>
  returns has a score that is at least \<open>fuzzy_threshold\<close>, and that score is the best score
  of the target pool; and when every target of the pool scores below the threshold,
  \<open>match\<close> returns \<open>None\<close>.
\<close>

theorem match_respects_threshold:
  "(match scorer fm l = Inr (Some c) \<longrightarrow>
      fuzzy_threshold (fm_config fm) \<le> score c \<and>
      list_all (\<lambda>t. scorer l t \<le> score c) (target_keys fm)) \<and>
   (list_all (\<lambda>t. scorer l t < fuzzy_threshold (fm_config fm)) (target_keys fm) \<longrightarrow>
      match scorer fm l = Inr None)"
  unfolding list_all_iff
  using match_some_threshold match_some_best match_below_threshold by blast

lemma small_matcher_eq:
  "small_matcher = \<lparr>fm_config = default_matching,
      targets = [(u ''tax'', u ''Tax''), (u ''equity'', u ''Equity'')],
      target_keys = [u ''tax'', u ''equity'']\<rparr>"
  by (simp add: small_matcher_def fuzzy_matcher_init_def u_def py_lower_def ascii_lower_def)

lemma small_match: "match exact_scorer small_matcher (u ''tax'') =
    Inr (Some \<lparr>cand_name = u ''Tax'', score = 100, is_ambiguous = False\<rparr>)"
  by (simp add: small_matcher_eq match_def process_extract_def exact_scorer_def u_def
      default_matching_def enumerate_eq_zip)

lemma small_no_match: "match exact_scorer small_matcher (u ''cash'') = Inr None"
  by (simp add: small_matcher_eq match_def process_extract_def exact_scorer_def u_def
      default_matching_def enumerate_eq_zip)

theorem match_respects_threshold_witness:
  "match exact_scorer small_matcher (u ''tax'') =
     Inr (Some \<lparr>cand_name = u ''Tax'', score = 100, is_ambiguous = False\<rparr>) \<and>
   fuzzy_threshold (fm_config small_matcher) \<le> 100 \<and>
   list_all (\<lambda>t. exact_scorer (u ''cash'') t < fuzzy_threshold (fm_config small_matcher))
     (target_keys small_matcher) \<and>
   match exact_scorer small_matcher (u ''cash'') = Inr None"
  using match_respects_threshold [of exact_scorer small_matcher "u ''tax''"
          "\<lparr>cand_name = u ''Tax'', score = 100, is_ambiguous = False\<rparr>"]
        match_respects_threshold [of exact_scorer small_matcher "u ''cash''"
          "\<lparr>cand_name = u ''Tax'', score = 100, is_ambiguous = False\<rparr>"]
  by (simp add: small_match small_no_match)
     (simp add: small_matcher_eq exact_scorer_def u_def default_matching_def)

section \<open>The built-in dictionary\<close>

lemma low_char_space: "low_char c \<Longrightarrow> is_space c \<longleftrightarrow> c = 32"
  unfolding low_char_def is_space_def by arith

lemma sp_ok_wsok: "\<forall>c \<in> set k. low_char c \<Longrightarrow> sp_ok k \<Longrightarrow> wsok k"
proof (induction k)
  case Nil
  show ?case by simp
next
  case (Cons c cs)
  then have "cs \<noteq> [] \<Longrightarrow> low_char (hd cs)" by simp
  with Cons show ?case by (auto simp: low_char_space)
qed

lemma sp_ok_last: "sp_ok k \<Longrightarrow> k \<noteq> [] \<Longrightarrow> last k \<noteq> 32"
  by (induction k) auto

lemma rstrip_id: "k = [] \<or> \<not> is_space (last k) \<Longrightarrow> rstrip k = k"
  unfolding rstrip_def by (cases k rule: rev_cases) auto

lemma lstrip_id: "k = [] \<or> \<not> is_space (hd k) \<Longrightarrow> lstrip k = k"
  unfolding lstrip_def by (cases k) auto

lemma nf_check_normal_form: "nf_check k \<Longrightarrow> normal_form k"
proof -
  assume n: "nf_check k"
  then have lc: "\<forall>c \<in> set k. low_char c" and sp: "sp_ok k" and h: "k = [] \<or> hd k \<noteq> 32"
    by (simp_all add: nf_check_def list_all_iff)
  have w: "wsok k" using lc sp by (rule sp_ok_wsok)
  have "k \<noteq> [] \<Longrightarrow> \<not> is_space (hd k)" using lc h by (simp add: low_char_space)
  then have l: "lstrip k = k" by (auto intro: lstrip_id)
  have "k \<noteq> [] \<Longrightarrow> \<not> is_space (last k)" using lc sp by (simp add: low_char_space sp_ok_last)
  then have r: "rstrip k = k" by (auto intro: rstrip_id)
  show ?thesis using lc w l r by (simp add: normal_form_def strip_def)
qed

lemma normalize_label_nf: "nf_check k \<Longrightarrow> normalize_label ul k = k"
  by (rule normal_form_fix [OF nf_check_normal_form])

lemma fold_upd_other:
  "list_all (\<lambda>(k', v'). f k' \<noteq> K) ys \<Longrightarrow>
   fold (\<lambda>(k, v) d. d(f k \<mapsto> v)) ys d0 K = d0 K"
  by (induction ys arbitrary: d0) auto

lemma fold_upd_last:
  "f k = K \<Longrightarrow> list_all (\<lambda>(k', v'). f k' \<noteq> K) ys \<Longrightarrow>
   fold (\<lambda>(k, v) d. d(f k \<mapsto> v)) (xs @ (k, v) # ys) d0 K = Some v"
  by (simp add: fold_upd_other)

lemma normalize_total_assets_ta:
  "normalize_label ul (u ''total assets (ta)'') = u ''total assets ta''"
  by (simp add: label_eval)

lemma normalize_total_liabilities_tl:
  "normalize_label ul (u ''total liabilities (tl)'') = u ''total liabilities tl''"
  by (simp add: label_eval)

lemma builtin_tail:
  "list_all (\<lambda>(k', v'). normalize_label ul k' \<noteq> u ''profit after tax'')
     (drop 130 BUILTIN_SYNONYMS)"
  using normalize_total_assets_ta [of ul] normalize_total_liabilities_tl [of ul]
  by (simp add: BUILTIN_SYNONYMS_def normalize_label_nf nf_check_def low_char_def u_def)

lemma builtin_split:
  "BUILTIN_SYNONYMS = take 129 BUILTIN_SYNONYMS @ (u ''profit after tax'', u ''Net Profit'') #
     drop 130 BUILTIN_SYNONYMS"
proof -
  have "BUILTIN_SYNONYMS ! 129 = (u ''profit after tax'', u ''Net Profit'')"
    by (simp add: BUILTIN_SYNONYMS_def)
  moreover have "129 < length BUILTIN_SYNONYMS" by (simp add: BUILTIN_SYNONYMS_def)
  ultimately show ?thesis using id_take_nth_drop [of 129 BUILTIN_SYNONYMS] by simp
qed

lemma builtin_profit_after_tax:
  "builtin_dict ul (u ''profit after tax'') = Some (u ''Net Profit'')"
proof -
  have "normalize_label ul (u ''profit after tax'') = u ''profit after tax''"
    by (simp add: normalize_label_nf nf_check_def low_char_def u_def)
  from fold_upd_last [of "normalize_label ul", OF this builtin_tail]
  have "fold (\<lambda>(k, v) d. d(normalize_label ul k \<mapsto> v))
          (take 129 BUILTIN_SYNONYMS @ (u ''profit after tax'', u ''Net Profit'') #
           drop 130 BUILTIN_SYNONYMS) Map.empty (u ''profit after tax'') = Some (u ''Net Profit'')" .
  then show ?thesis unfolding builtin_dict_def using builtin_split by simp
qed

section \<open>Properties of the pipeline\<close>

lemma build_result_fields:
  "build_result c raw v conf method ws seen = (r, s) \<Longrightarrow>
   canonical_name r = c \<and> raw_label r = raw \<and> val r = opt_val v \<and> confidence r = conf \<and>
   match_method r = method \<and>
   warnings r = (case seen c of Some prev \<Rightarrow> ws @ [conflict_msg c prev raw] | None \<Rightarrow> ws)"
  by (auto simp: build_result_def split: option.splits)

lemma map_single_synonym:
  assumes "lookup (synonyms p) (normalize_label ul raw) = Some c"
    and "normalize_value v = Inr (x, w)"
  shows "map_single ul scorer p raw v seen =
           Inr (Some (fst (build_result c raw x 100 ''synonym'' w seen)),
                snd (build_result c raw x 100 ''synonym'' w seen))"
  using assms
  by (simp add: map_single_def normalize_pair_def Let_def split_beta)

lemma map_single_synonym_fields:
  assumes "lookup (synonyms p) (normalize_label ul raw) = Some c"
    and "normalize_value v = Inr (x, w)"
  shows "\<exists>r s. map_single ul scorer p raw v seen = Inr (Some r, s) \<and>
           canonical_name r = c \<and> raw_label r = raw \<and> val r = opt_val x \<and>
           confidence r = 100 \<and> match_method r = ''synonym''"
proof -
  obtain r s where b: "build_result c raw x 100 ''synonym'' w seen = (r, s)"
    by (cases "build_result c raw x 100 ''synonym'' w seen")
  from build_result_fields [OF b] map_single_synonym [OF assms, of scorer seen] b
  show ?thesis by simp
qed

lemma map_single_overflow:
  "too_large v \<Longrightarrow>
   map_single ul scorer p raw v seen =
     Inl (OverflowError [Txt ''int too large to convert to float''])"
  by (simp add: map_single_def normalize_pair_def normalize_value_raises)

lemma map_single_empty_label:
  assumes "normalize_label ul raw = []" and "lookup (synonyms p) [] = None"
    and "normalize_value v = Inr (x, w)"
  shows "map_single ul scorer p raw v seen = Inr (None, seen)"
  using assms
  by (simp add: map_single_def normalize_pair_def Let_def split_beta match_empty
      semantic_match_def)

lemma map_single_empty_method:
  assumes "normalize_label ul raw = []"
    and "map_single ul scorer p raw v seen = Inr (Some r, s)"
  shows "match_method r = ''synonym''"
proof (cases "too_large v")
  case True
  from map_single_overflow [OF True] assms(2) show ?thesis by simp
next
  case False
  from normalize_value_returns [OF False] obtain x w where n: "normalize_value v = Inr (x, w)"
    by blast
  show ?thesis
  proof (cases "lookup (synonyms p) []")
    case None
    from map_single_empty_label [OF assms(1) None n] assms(2) show ?thesis by simp
  next
    case (Some c)
    then have "lookup (synonyms p) (normalize_label ul raw) = Some c" using assms(1) by simp
    from map_single_synonym_fields [OF this n, of scorer seen] assms(2) show ?thesis by auto
  qed
qed

lemma map_single_no_error:
  assumes "wf_matcher (fuzzy p)" and "\<not> too_large v"
  shows "map_single ul scorer p raw v seen \<noteq> Inl e"
proof -
  have m: "\<And>l e. match scorer (fuzzy p) l \<noteq> Inl e" using assms(1) by (rule match_no_error)
  from normalize_value_returns [OF assms(2)] obtain x w where n: "normalize_value v = Inr (x, w)"
    by blast
  show ?thesis
    unfolding map_single_def normalize_pair_def semantic_match_def
    using m n
    by (auto simp: Let_def split_beta split: option.splits sum.splits)
qed

lemma map_pairs_no_error:
  "wf_matcher (fuzzy p) \<Longrightarrow> \<not> list_ex (\<lambda>x. too_large (snd x)) pairs \<Longrightarrow>
   \<exists>ms' um'. map_pairs ul scorer p pairs ms um seen = Inr (ms', um')"
proof (induction pairs arbitrary: ms um seen)
  case Nil
  show ?case by simp
next
  case (Cons x pairs)
  obtain raw v where x: "x = (raw, v)" by (cases x)
  from Cons.prems(2) x have v: "\<not> too_large v" and rest: "\<not> list_ex (\<lambda>x. too_large (snd x)) pairs"
    by simp_all
  show ?case
  proof (cases "map_single ul scorer p raw v seen")
    case (Inl e)
    with map_single_no_error [OF Cons.prems(1) v] show ?thesis by blast
  next
    case (Inr y)
    obtain r s where y: "y = (r, s)" by (cases y)
    show ?thesis
      using Cons.IH [OF Cons.prems(1) rest] Inr x y by (cases r) simp_all
  qed
qed

lemma map_pairs_overflow:
  "wf_matcher (fuzzy p) \<Longrightarrow> list_ex (\<lambda>x. too_large (snd x)) pairs \<Longrightarrow>
   map_pairs ul scorer p pairs ms um seen =
     Inl (OverflowError [Txt ''int too large to convert to float''])"
proof (induction pairs arbitrary: ms um seen)
  case Nil
  then show ?case by simp
next
  case (Cons x pairs)
  obtain raw v where x: "x = (raw, v)" by (cases x)
  show ?case
  proof (cases "too_large v")
    case True
    then show ?thesis by (simp add: x map_single_overflow)
  next
    case False
    with Cons.prems(2) x have rest: "list_ex (\<lambda>x. too_large (snd x)) pairs" by simp
    show ?thesis
    proof (cases "map_single ul scorer p raw v seen")
      case (Inl e)
      with map_single_no_error [OF Cons.prems(1) False] show ?thesis by blast
    next
      case (Inr y)
      obtain r s where y: "y = (r, s)" by (cases y)
      show ?thesis
        using Cons.IH [OF Cons.prems(1) rest] Inr x y by (cases r) simp_all
    qed
  qed
qed

lemma pipeline_init_plain: "pipeline_init ul names cfg [] = Inr (plain_pipeline ul names cfg)"
  by (simp add: pipeline_init_def synonym_mapper_init_def plain_pipeline_def)

lemma pipeline_init_wf:
  "pipeline_init ul names cfg extra = Inr p \<Longrightarrow> wf_matcher (fuzzy p) \<and> config p = cfg"
  by (auto simp: pipeline_init_def wf_fuzzy_matcher_init split: sum.splits)

lemma run_strict:
  assumes "map_pairs ul scorer p pairs [] [] Map.empty = Inr (ms, um)"
    and "strict_mode (matching (config p))"
    and "errors (validate (validation (config p)) ms) \<noteq> []"
  shows "run ul scorer p pairs =
           Inl (RuntimeError
                  [Txt ''Strict mode: pipeline produced '',
                   Count (length (errors (validate (validation (config p)) ms))),
                   Txt '' validation error(s):'',
                   Lines (errors (validate (validation (config p)) ms))])"
  using assms by (simp add: run_def Let_def success_def build_output_def)

lemma run_non_strict:
  assumes "map_pairs ul scorer p pairs [] [] Map.empty = Inr (ms, um)"
    and "\<not> strict_mode (matching (config p))"
  shows "run ul scorer p pairs =
           Inr (build_output ms um (errors (validate (validation (config p)) ms))
                  (report_warnings (validate (validation (config p)) ms)))"
  using assms by (simp add: run_def Let_def)

lemma run_overflow:
  assumes "wf_matcher (fuzzy p)" and "list_ex (\<lambda>x. too_large (snd x)) pairs"
  shows "run ul scorer p pairs = Inl (OverflowError [Txt ''int too large to convert to float''])"
  by (simp add: run_def map_pairs_overflow [OF assms])

text \<open>
  \<^bold>\<open>C2.\<close> A run of a constructed pipeline, in the two cases of its input. If no raw value
  is an integer too large for a double, the mapping of the pairs returns its mappings
  \<open>ms\<close> and the run reaches their validation: in strict mode, when the report has an
  error, the run raises the \<open>RuntimeError\<close> whose message is the count of the errors and
  the whole list of errors, and there is no output; when strict mode is off the run
  returns an output with the errors of the report, and its \<open>success\<close> flag is true exactly
  when there is no error. If some raw value is an integer too large for a double, the
  run raises \<open>OverflowError\<close>, also when strict mode is off: the conversion \<open>float(raw)\<close> of
  \<open>normalize_value\<close> is not guarded, so against the claim a run without strict mode does
  not always return an output.
\<close>

theorem run_strict_mode:
  assumes "pipeline_init ul names cfg extra = Inr p"
  shows "if list_ex (\<lambda>x. too_large (snd x)) pairs
         then run ul scorer p pairs =
                Inl (OverflowError [Txt ''int too large to convert to float''])
         else (\<exists>ms um. map_pairs ul scorer p pairs [] [] Map.empty = Inr (ms, um) \<and>
                 (strict_mode (matching cfg) \<and> errors (validate (validation cfg) ms) \<noteq> [] \<longrightarrow>
                    run ul scorer p pairs =
                      Inl (RuntimeError
                             [Txt ''Strict mode: pipeline produced '',
                              Count (length (errors (validate (validation cfg) ms))),
                              Txt '' validation error(s):'',
                              Lines (errors (validate (validation cfg) ms))])) \<and>
                 (\<not> strict_mode (matching cfg) \<longrightarrow>
                    (\<exists>out. run ul scorer p pairs = Inr out \<and>
                           validation_errors out = errors (validate (validation cfg) ms) \<and>
                           (success out \<longleftrightarrow> errors (validate (validation cfg) ms) = []))))"
proof (cases "list_ex (\<lambda>x. too_large (snd x)) pairs")
  case True
  from pipeline_init_wf [OF assms] have wf: "wf_matcher (fuzzy p)" by simp
  from run_overflow [OF wf True] True show ?thesis by simp
next
  case False
  from pipeline_init_wf [OF assms] have wf: "wf_matcher (fuzzy p)" and c: "config p = cfg"
    by simp_all
  from map_pairs_no_error [OF wf False] obtain ms um
    where m: "map_pairs ul scorer p pairs [] [] Map.empty = Inr (ms, um)" by blast
  have s: "strict_mode (matching cfg) \<and> errors (validate (validation cfg) ms) \<noteq> [] \<longrightarrow>
              run ul scorer p pairs =
                Inl (RuntimeError
                       [Txt ''Strict mode: pipeline produced '',
                        Count (length (errors (validate (validation cfg) ms))),
                        Txt '' validation error(s):'',
                        Lines (errors (validate (validation cfg) ms))])"
    using run_strict [OF m] c by simp
  have n: "\<not> strict_mode (matching cfg) \<longrightarrow>
              (\<exists>out. run ul scorer p pairs = Inr out \<and>
                     validation_errors out = errors (validate (validation cfg) ms) \<and>
                     (success out \<longleftrightarrow> errors (validate (validation cfg) ms) = []))"
    using run_non_strict [OF m] c by (simp add: build_output_def success_def)
  from m s n have "\<exists>ms um. map_pairs ul scorer p pairs [] [] Map.empty = Inr (ms, um) \<and>
                 (strict_mode (matching cfg) \<and> errors (validate (validation cfg) ms) \<noteq> [] \<longrightarrow>
                    run ul scorer p pairs =
                      Inl (RuntimeError
                             [Txt ''Strict mode: pipeline produced '',
                              Count (length (errors (validate (validation cfg) ms))),
                              Txt '' validation error(s):'',
                              Lines (errors (validate (validation cfg) ms))])) \<and>
                 (\<not> strict_mode (matching cfg) \<longrightarrow>
                    (\<exists>out. run ul scorer p pairs = Inr out \<and>
                           validation_errors out = errors (validate (validation cfg) ms) \<and>
                           (success out \<longleftrightarrow> errors (validate (validation cfg) ms) = [])))"
    by blast
  with False show ?thesis by simp
qed

lemma validate_required_empty:
  "validate (default_validation\<lparr>required_fields := [u ''Net Profit'']\<rparr>) [] =
     \<lparr>errors = [[Txt ''Required field missing: '', Quoted (u ''Net Profit'')]],
      report_warnings = []\<rparr>"
  by (simp add: validate_def check_duplicates_def check_required_fields_def check_values_def
      empty_report_def add_error_def default_validation_def)

theorem run_strict_mode_witness:
  "pipeline_init id canonical_fields strict_config [] =
     Inr (plain_pipeline id canonical_fields strict_config) \<and>
   run id exact_scorer (plain_pipeline id canonical_fields strict_config) [] =
     Inl (RuntimeError
            [Txt ''Strict mode: pipeline produced '', Count 1, Txt '' validation error(s):'',
             Lines [[Txt ''Required field missing: '', Quoted (u ''Net Profit'')]]]) \<and>
   pipeline_init id canonical_fields lenient_config [] =
     Inr (plain_pipeline id canonical_fields lenient_config) \<and>
   run id exact_scorer (plain_pipeline id canonical_fields lenient_config) [] =
     Inr \<lparr>mappings = [], unmapped = [],
          validation_errors = [[Txt ''Required field missing: '', Quoted (u ''Net Profit'')]],
          validation_warnings = []\<rparr> \<and>
   \<not> strict_mode (matching lenient_config) \<and>
   run id exact_scorer (plain_pipeline id canonical_fields lenient_config)
     [(u ''Tax'', VInt (10 ^ 400))] =
     Inl (OverflowError [Txt ''int too large to convert to float''])"
proof -
  have s: "strict_mode (matching strict_config)" "validation strict_config =
      default_validation\<lparr>required_fields := [u ''Net Profit'']\<rparr>"
    by (simp_all add: strict_config_def default_matching_def)
  have l: "\<not> strict_mode (matching lenient_config)" "validation lenient_config =
      default_validation\<lparr>required_fields := [u ''Net Profit'']\<rparr>"
    by (simp_all add: lenient_config_def default_matching_def)
  have 1: "run id exact_scorer (plain_pipeline id canonical_fields strict_config) [] =
     Inl (RuntimeError
            [Txt ''Strict mode: pipeline produced '', Count 1, Txt '' validation error(s):'',
             Lines [[Txt ''Required field missing: '', Quoted (u ''Net Profit'')]]])"
    using run_strict_mode [where ul = id and names = canonical_fields and cfg = strict_config
            and scorer = exact_scorer and pairs = "[]", OF pipeline_init_plain] s
    by (auto simp: validate_required_empty)
  have 2: "run id exact_scorer (plain_pipeline id canonical_fields lenient_config) [] =
     Inr \<lparr>mappings = [], unmapped = [],
          validation_errors = [[Txt ''Required field missing: '', Quoted (u ''Net Profit'')]],
          validation_warnings = []\<rparr>"
    using run_strict_mode [where ul = id and names = canonical_fields and cfg = lenient_config
            and scorer = exact_scorer and pairs = "[]", OF pipeline_init_plain] l
    by (auto simp: validate_required_empty run_def plain_pipeline_def build_output_def)
  have 3: "run id exact_scorer (plain_pipeline id canonical_fields lenient_config)
     [(u ''Tax'', VInt (10 ^ 400))] =
     Inl (OverflowError [Txt ''int too large to convert to float''])"
    using run_strict_mode [where ul = id and names = canonical_fields and cfg = lenient_config
            and scorer = exact_scorer and pairs = "[(u ''Tax'', VInt (10 ^ 400))]",
            OF pipeline_init_plain] too_large_huge
    by simp
  show ?thesis using 1 2 3 l(1) by (simp add: pipeline_init_plain)
qed

lemma normalize_value_500000: "normalize_value (VInt 500000) = Inr (Some (Fin 500000), [])"
  by (simp add: normalize_value_def float_of_int_500000)

lemma normalize_profit_after_tax:
  "normalize_label ul (u ''Profit After Tax'') = u ''profit after tax''"
  by (simp add: label_eval)

lemma validate_single_finite:
  "validate default_validation
     [\<lparr>canonical_name = c, raw_label = r, val = VFloat (Fin 500000), confidence = 100,
       match_method = ''synonym'', warnings = []\<rparr>] = \<lparr>errors = [], report_warnings = []\<rparr>"
  by (simp add: validate_def check_duplicates_def check_required_fields_def check_values_def
      check_value_def empty_report_def default_validation_def)

lemma map_dict_profit_after_tax:
  "map_dict ul scorer (plain_pipeline ul names default_config)
     [(u ''Profit After Tax'', VInt 500000)] =
   Inr \<lparr>mappings = [\<lparr>canonical_name = u ''Net Profit'', raw_label = u ''Profit After Tax'',
                      val = VFloat (Fin 500000), confidence = 100, match_method = ''synonym'',
                      warnings = []\<rparr>],
        unmapped = [], validation_errors = [], validation_warnings = []\<rparr>"
proof -
  let ?p = "plain_pipeline ul names default_config"
  have l: "lookup (synonyms ?p) (normalize_label ul (u ''Profit After Tax'')) =
             Some (u ''Net Profit'')"
    by (simp add: lookup_def plain_pipeline_def normalize_profit_after_tax
        builtin_profit_after_tax)
  have m: "map_single ul scorer ?p (u ''Profit After Tax'') (VInt 500000) Map.empty =
      Inr (Some \<lparr>canonical_name = u ''Net Profit'', raw_label = u ''Profit After Tax'',
                      val = VFloat (Fin 500000), confidence = 100, match_method = ''synonym'',
                      warnings = []\<rparr>, [u ''Net Profit'' \<mapsto> u ''Profit After Tax''])"
    by (simp add: map_single_synonym [OF l normalize_value_500000] build_result_def)
  have r: "map_pairs ul scorer ?p [(u ''Profit After Tax'', VInt 500000)] [] [] Map.empty =
      Inr ([\<lparr>canonical_name = u ''Net Profit'', raw_label = u ''Profit After Tax'',
                      val = VFloat (Fin 500000), confidence = 100, match_method = ''synonym'',
                      warnings = []\<rparr>], [])"
    by (simp add: m)
  have c: "config ?p = default_config" by (simp add: plain_pipeline_def)
  show ?thesis
    unfolding map_dict_def run_def r c
    by (simp add: default_config_def default_matching_def validate_single_finite
        build_output_def)
qed

text \<open>
  \<^bold>\<open>C1\<close> (amended). For every pipeline and every raw pair whose normalised label is a key
  of the synonym dictionary: if the value is not an integer too large for a double,
  \<open>_map_single\<close> produces a mapping result with the canonical name of the dictionary, the
  value that \<open>normalize_value\<close> returns, confidence 100 and the match method \<open>synonym\<close>; if
  it is, \<open>_map_single\<close> raises \<open>OverflowError\<close> and produces nothing. In particular, with
  the default configuration the input \<open>{"Profit After Tax": 500000}\<close> gives exactly one
  mapping, with canonical name \<open>Net Profit\<close>, value \<open>500000.0\<close>, confidence 100, method
  \<open>synonym\<close> and no warning, nothing unmapped, and no validation error or warning.
  The claim names the method \<open>exact\<close>; the counterexample shows that the method of this
  mapping is not \<open>exact\<close>.
\<close>

theorem synonym_hit_result:
  "(lookup (synonyms p) (normalize_label ul raw) = Some c \<longrightarrow>
      (if too_large v
       then map_single ul scorer p raw v seen =
              Inl (OverflowError [Txt ''int too large to convert to float''])
       else (\<exists>r s x w. normalize_value v = Inr (x, w) \<and>
               map_single ul scorer p raw v seen = Inr (Some r, s) \<and>
               canonical_name r = c \<and> raw_label r = raw \<and> val r = opt_val x \<and>
               confidence r = 100 \<and> match_method r = ''synonym''))) \<and>
   map_dict ul scorer (plain_pipeline ul names default_config)
     [(u ''Profit After Tax'', VInt 500000)] =
   Inr \<lparr>mappings = [\<lparr>canonical_name = u ''Net Profit'', raw_label = u ''Profit After Tax'',
                      val = VFloat (Fin 500000), confidence = 100, match_method = ''synonym'',
                      warnings = []\<rparr>],
        unmapped = [], validation_errors = [], validation_warnings = []\<rparr>"
proof -
  have "\<exists>r s x w. normalize_value v = Inr (x, w) \<and>
               map_single ul scorer p raw v seen = Inr (Some r, s) \<and>
               canonical_name r = c \<and> raw_label r = raw \<and> val r = opt_val x \<and>
               confidence r = 100 \<and> match_method r = ''synonym''"
    if a: "lookup (synonyms p) (normalize_label ul raw) = Some c" and b: "\<not> too_large v"
  proof -
    from normalize_value_returns [OF b] obtain x w where n: "normalize_value v = Inr (x, w)"
      by blast
    from map_single_synonym_fields [OF a n, of scorer seen] n show ?thesis by blast
  qed
  then show ?thesis using map_dict_profit_after_tax map_single_overflow by simp
qed

theorem synonym_hit_result_witness:
  "lookup (synonyms (plain_pipeline id canonical_fields default_config))
     (normalize_label id (u ''Profit After Tax'')) = Some (u ''Net Profit'') \<and>
   \<not> too_large (VInt 500000) \<and>
   (\<exists>r s. map_single id exact_scorer (plain_pipeline id canonical_fields default_config)
            (u ''Profit After Tax'') (VInt 500000) Map.empty = Inr (Some r, s) \<and>
          canonical_name r = u ''Net Profit'' \<and> val r = VFloat (Fin 500000) \<and>
          confidence r = 100 \<and> match_method r = ''synonym'') \<and>
   too_large (VInt (10 ^ 400)) \<and>
   map_single id exact_scorer (plain_pipeline id canonical_fields default_config)
     (u ''Profit After Tax'') (VInt (10 ^ 400)) Map.empty =
     Inl (OverflowError [Txt ''int too large to convert to float''])"
proof -
  have l: "lookup (synonyms (plain_pipeline id canonical_fields default_config))
     (normalize_label id (u ''Profit After Tax'')) = Some (u ''Net Profit'')"
    by (simp add: lookup_def plain_pipeline_def normalize_profit_after_tax
        builtin_profit_after_tax)
  have t: "\<not> too_large (VInt 500000)" by (simp add: too_large_def)
  from synonym_hit_result [where p = "plain_pipeline id canonical_fields default_config"
         and ul = id and raw = "u ''Profit After Tax''" and c = "u ''Net Profit''"
         and v = "VInt 500000" and scorer = exact_scorer and seen = Map.empty
         and names = canonical_fields] l t
  have 1: "\<exists>r s. map_single id exact_scorer (plain_pipeline id canonical_fields default_config)
            (u ''Profit After Tax'') (VInt 500000) Map.empty = Inr (Some r, s) \<and>
          canonical_name r = u ''Net Profit'' \<and> val r = VFloat (Fin 500000) \<and>
          confidence r = 100 \<and> match_method r = ''synonym''"
    by (auto simp: normalize_value_500000)
  from synonym_hit_result [where p = "plain_pipeline id canonical_fields default_config"
         and ul = id and raw = "u ''Profit After Tax''" and c = "u ''Net Profit''"
         and v = "VInt (10 ^ 400)" and scorer = exact_scorer and seen = Map.empty
         and names = canonical_fields] l too_large_huge
  have 2: "map_single id exact_scorer (plain_pipeline id canonical_fields default_config)
     (u ''Profit After Tax'') (VInt (10 ^ 400)) Map.empty =
     Inl (OverflowError [Txt ''int too large to convert to float''])"
    by simp
  show ?thesis using l t 1 2 too_large_huge by blast
qed

theorem synonym_method_counterexample:
  "\<not> (\<exists>out. map_dict id exact_scorer (plain_pipeline id canonical_fields default_config)
              [(u ''Profit After Tax'', VInt 500000)] = Inr out \<and>
            map match_method (mappings out) = [''exact''])"
  by (simp add: map_dict_profit_after_tax)

text \<open>
  \<^bold>\<open>C10.\<close> For every scorer and every matcher (every configuration and every pool of
  targets) \<open>match\<close> returns \<open>None\<close> on the empty string. So a raw label whose normalised
  form is empty is never matched by the fuzzy layer, whatever the threshold and whatever
  the value: every mapping result that \<open>_map_single\<close> produces for it has the method
  \<open>synonym\<close>. When the value is not an integer too large for a double, the label is
  unmapped if the empty string is not a key of the synonym dictionary, and mapped with
  the method \<open>synonym\<close> if it is.
\<close>

theorem empty_label_never_fuzzy:
  "match scorer fm [] = Inr None \<and>
   (normalize_label ul raw = [] \<longrightarrow>
      (\<forall>r s. map_single ul scorer p raw v seen = Inr (Some r, s) \<longrightarrow>
             match_method r = ''synonym'') \<and>
      (\<not> too_large v \<longrightarrow>
         (lookup (synonyms p) [] = None \<longrightarrow>
            map_single ul scorer p raw v seen = Inr (None, seen)) \<and>
         (\<forall>c. lookup (synonyms p) [] = Some c \<longrightarrow>
            (\<exists>r s. map_single ul scorer p raw v seen = Inr (Some r, s) \<and>
                   match_method r = ''synonym''))))"
proof -
  have 1: "map_single ul scorer p raw v seen = Inr (None, seen)"
    if "normalize_label ul raw = []" "\<not> too_large v" "lookup (synonyms p) [] = None"
  proof -
    from normalize_value_returns [OF that(2)] obtain x w where n: "normalize_value v = Inr (x, w)"
      by blast
    from map_single_empty_label [OF that(1) that(3) n] show ?thesis .
  qed
  have 2: "\<exists>r s. map_single ul scorer p raw v seen = Inr (Some r, s) \<and>
                match_method r = ''synonym''"
    if "normalize_label ul raw = []" "\<not> too_large v" "lookup (synonyms p) [] = Some c" for c
  proof -
    from normalize_value_returns [OF that(2)] obtain x w where n: "normalize_value v = Inr (x, w)"
      by blast
    from that have a: "lookup (synonyms p) (normalize_label ul raw) = Some c" by simp
    from map_single_synonym_fields [OF a n, of scorer seen] show ?thesis by blast
  qed
  show ?thesis using match_empty map_single_empty_method 1 2 by blast
qed

lemma normalize_punct: "normalize_label ul (u ''!!!'') = []"
  by (simp add: label_eval)

theorem empty_label_never_fuzzy_witness:
  "normalize_label id (u ''!!!'') = [] \<and> lookup (synonyms small_pipeline) [] = None \<and>
   fuzzy_threshold (fm_config (fuzzy small_pipeline)) = 0 \<and> \<not> too_large (VInt 1) \<and>
   map_single id exact_scorer small_pipeline (u ''!!!'') (VInt 1) Map.empty = Inr (None, Map.empty)"
  using empty_label_never_fuzzy [of exact_scorer small_matcher id "u ''!!!''" small_pipeline
          "VInt 1" Map.empty]
  by (simp add: normalize_punct small_pipeline_def lookup_def too_large_def)
section \<open>Properties of the synonym dictionary\<close>

lemma add_synonym_member:
  "canonical \<in> CANONICAL_NAMES \<Longrightarrow>
   add_synonym ul d variant canonical = Inr (d(normalize_label ul variant \<mapsto> canonical))"
  by (simp add: add_synonym_def)

lemma add_synonym_resolved:
  "canonical \<notin> CANONICAL_NAMES \<Longrightarrow> canonical_lookup ul canonical = Some cf \<Longrightarrow>
   add_synonym ul d variant canonical = Inr (d(normalize_label ul variant \<mapsto> cf))"
  by (simp add: add_synonym_def)

lemma add_synonym_raises:
  "isl (add_synonym ul d variant canonical) \<longleftrightarrow>
   canonical \<notin> CANONICAL_NAMES \<and> canonical_lookup ul canonical = None"
  by (auto simp: add_synonym_def split: option.splits)

lemma canonical_lookup_some:
  "canonical_lookup ul name = Some cf \<Longrightarrow>
   cf \<in> CANONICAL_NAMES \<and> py_lower ul cf = py_lower ul (strip name)"
  unfolding canonical_lookup_def CANONICAL_NAMES_def Let_def
  by (auto simp: find_Some_iff)

lemma canonical_lookup_none:
  "canonical_lookup ul name = None \<longleftrightarrow>
   list_all (\<lambda>f. py_lower ul f \<noteq> py_lower ul (strip name)) canonical_fields"
  unfolding canonical_lookup_def Let_def
  by (auto simp: find_None_iff list_all_iff)

text \<open>
  \<^bold>\<open>C8\<close> (amended). \<open>add_synonym(variant, canonical)\<close> raises a \<open>ValueError\<close> exactly when
  \<open>canonical\<close> is not a value of \<open>CanonicalField\<close> and, stripped and lowered, differs from
  every lowered value of \<open>CanonicalField\<close>. When it does not raise, the new dictionary is the
  old one with the normalised variant mapped to a value \<open>cf\<close> of \<open>CanonicalField\<close>, which is
  \<open>canonical\<close> itself or the value that equals it up to case and surrounding whitespace;
  an entry that the normalised variant had before is overwritten. The claim says that
  the call raises exactly when \<open>canonical\<close> is not a member of \<open>CanonicalField\<close>; the
  counterexample is \<open>canonical = "net profit"\<close>, which is not a member and is accepted.
\<close>

theorem add_synonym_result:
  "(isl (add_synonym ul d variant canonical) \<longleftrightarrow>
      canonical \<notin> CANONICAL_NAMES \<and>
      list_all (\<lambda>f. py_lower ul f \<noteq> py_lower ul (strip canonical)) canonical_fields) \<and>
   (\<forall>d'. add_synonym ul d variant canonical = Inr d' \<longrightarrow>
      (\<exists>cf. cf \<in> CANONICAL_NAMES \<and>
            (cf = canonical \<or>
             canonical \<notin> CANONICAL_NAMES \<and> py_lower ul cf = py_lower ul (strip canonical)) \<and>
            d' = d(normalize_label ul variant \<mapsto> cf)))"
proof -
  have 1: "isl (add_synonym ul d variant canonical) \<longleftrightarrow>
      canonical \<notin> CANONICAL_NAMES \<and>
      list_all (\<lambda>f. py_lower ul f \<noteq> py_lower ul (strip canonical)) canonical_fields"
    by (simp add: add_synonym_raises canonical_lookup_none)
  have 3: "\<exists>cf. cf \<in> CANONICAL_NAMES \<and>
            (cf = canonical \<or>
             canonical \<notin> CANONICAL_NAMES \<and> py_lower ul cf = py_lower ul (strip canonical)) \<and>
            d' = d(normalize_label ul variant \<mapsto> cf)"
    if a: "add_synonym ul d variant canonical = Inr d'" for d'
  proof (cases "canonical \<in> CANONICAL_NAMES")
    case True
    with a show ?thesis by (auto simp: add_synonym_member)
  next
    case False
    with a obtain cf where c: "canonical_lookup ul canonical = Some cf"
      by (auto simp: add_synonym_def split: option.splits)
    with False a canonical_lookup_some [OF c] show ?thesis
      by (auto simp: add_synonym_resolved)
  qed
  show ?thesis using 1 3 by blast
qed

lemma net_profit_not_member: "u ''net profit'' \<notin> CANONICAL_NAMES"
  by (simp add: CANONICAL_NAMES_def canonical_fields_def u_def)

lemma net_profit_lookup: "canonical_lookup ul (u ''net profit'') = Some (u ''Net Profit'')"
  by (simp add: canonical_lookup_def canonical_fields_def u_def py_lower_def ascii_lower_def
      strip_def lstrip_def rstrip_def is_space_def)

lemma normalize_pat: "normalize_label ul (u ''PAT'') = u ''pat''"
  by (simp add: label_eval)

lemma add_synonym_net_profit:
  "add_synonym ul d (u ''PAT'') (u ''net profit'') = Inr (d(u ''pat'' \<mapsto> u ''Net Profit''))"
  by (simp add: add_synonym_resolved [OF net_profit_not_member net_profit_lookup] normalize_pat)

lemma not_a_real_field:
  "isl (add_synonym ul d (u ''foo'') (u ''Not A Real Field''))"
  by (simp add: add_synonym_raises canonical_lookup_def CANONICAL_NAMES_def canonical_fields_def
      u_def py_lower_def ascii_lower_def strip_def lstrip_def rstrip_def is_space_def)

theorem add_synonym_result_witness:
  "isl (add_synonym id Map.empty (u ''foo'') (u ''Not A Real Field'')) \<and>
   u ''net profit'' \<notin> CANONICAL_NAMES \<and>
   add_synonym id [u ''pat'' \<mapsto> u ''Tax''] (u ''PAT'') (u ''net profit'') =
     Inr [u ''pat'' \<mapsto> u ''Net Profit''] \<and>
   \<not> isl (add_synonym id [u ''pat'' \<mapsto> u ''Tax''] (u ''PAT'') (u ''net profit''))"
  using add_synonym_result [of id "[u ''pat'' \<mapsto> u ''Tax'']" "u ''PAT''" "u ''net profit''"]
  by (simp add: add_synonym_net_profit net_profit_not_member not_a_real_field)

theorem add_synonym_counterexample:
  "\<not> (isl (add_synonym id Map.empty (u ''PAT'') (u ''net profit'')) \<longleftrightarrow>
       u ''net profit'' \<notin> CANONICAL_NAMES)"
  by (simp add: add_synonym_net_profit net_profit_not_member)

section \<open>Properties of the deduplication\<close>

lemma dedup_loop_keep_first:
  "dedup_loop ul pairs seen deduped = deduped @ keep_first (label_key ul) (dom seen) pairs"
proof (induction pairs arbitrary: seen deduped)
  case Nil
  show ?case by simp
next
  case (Cons p pairs)
  obtain label v where p: "p = (label, v)" by (cases p)
  let ?k = "py_lower ul (strip label)"
  have lk: "label_key ul (label, v) = ?k" by (simp add: label_key_def)
  show ?case
  proof (cases "seen ?k = None")
    case True
    then have "dedup_loop ul (p # pairs) seen deduped =
                 dedup_loop ul pairs (seen(?k \<mapsto> v)) (deduped @ [(label, v)])"
      by (simp add: p Let_def)
    also have "\<dots> = (deduped @ [(label, v)]) @
                 keep_first (label_key ul) (dom (seen(?k \<mapsto> v))) pairs"
      by (rule Cons)
    also have "dom (seen(?k \<mapsto> v)) = insert ?k (dom seen)" by simp
    finally show ?thesis using True by (simp add: p lk domIff)
  next
    case False
    then have "dedup_loop ul (p # pairs) seen deduped = dedup_loop ul pairs seen deduped"
      by (auto simp: p Let_def)
    also have "\<dots> = deduped @ keep_first (label_key ul) (dom seen) pairs" by (rule Cons)
    finally show ?thesis using False by (auto simp: p lk domIff)
  qed
qed

lemma dedup_keep_first: "dedup ul pairs = keep_first (label_key ul) {} pairs"
  by (simp add: dedup_def dedup_loop_keep_first)

lemma keep_first_keys: "x \<in> set (keep_first key S xs) \<Longrightarrow> key x \<notin> S \<and> x \<in> set xs"
  by (induction xs arbitrary: S) (auto split: if_splits)

lemma keep_first_distinct: "distinct (map key (keep_first key S xs))"
proof (induction xs arbitrary: S)
  case Nil
  show ?case by simp
next
  case (Cons x xs)
  have "key x \<notin> key ` set (keep_first key (insert (key x) S) xs)"
  proof
    assume "key x \<in> key ` set (keep_first key (insert (key x) S) xs)"
    then obtain y where y: "y \<in> set (keep_first key (insert (key x) S) xs)" and e: "key x = key y"
      by auto
    from keep_first_keys [OF y] e show False by simp
  qed
  with Cons show ?case by simp
qed

lemma keep_first_subseq: "subseq (keep_first key S xs) xs"
  by (induction xs arbitrary: S) auto

lemma keep_first_find:
  "k \<notin> S \<Longrightarrow> find (\<lambda>p. key p = k) (keep_first key S xs) = find (\<lambda>p. key p = k) xs"
  by (induction xs arbitrary: S) auto

lemma legacy_loop_all: "legacy_loop ul pairs seen deduped = deduped @ pairs"
  by (induction pairs arbitrary: seen deduped) (auto simp: Let_def)

lemma parse_file_one_year_all: "parse_file_one_year ul sheets = concat sheets"
  by (simp add: parse_file_one_year_def legacy_loop_all)

text \<open>
  \<^bold>\<open>C9.\<close> In the output for all years, the list of a year is the deduplicated list of
  the pairs collected for that year. Deduplication keeps, for each key (the label,
  stripped and lowered), the first pair with that key and drops every later one: the keys
  of the result are distinct, the result is a subsequence of the input, and for every key
  the first pair with that key is the same in the result and in the input. The result of
  \<open>parse_file\<close> consists of the pairs only; it has no component for warnings. In the
  output for one selected year this does not hold: the loop under the comment
  \<open>Deduplicate\<close> appends every pair, so the returned list is the list of all pairs of all
  sheets, later duplicates included.
\<close>

theorem dedup_first_wins:
  "distinct (map (label_key ul) (dedup ul pairs)) \<and>
   subseq (dedup ul pairs) pairs \<and>
   find (\<lambda>p. label_key ul p = k) (dedup ul pairs) = find (\<lambda>p. label_key ul p = k) pairs \<and>
   list_all (\<lambda>(year, ps). distinct (map (label_key ul) ps)) (parse_file_all_years ul sheets) \<and>
   parse_file_all_years ul sheets =
     map (\<lambda>(year, ps). (year, dedup ul ps)) (fold merge_sheet sheets []) \<and>
   parse_file_one_year ul year_sheets = concat year_sheets"
  by (auto simp: dedup_keep_first keep_first_distinct keep_first_subseq keep_first_find
      parse_file_all_years_def list_all_iff parse_file_one_year_all)

lemma dedup_example:
  "dedup id [(u ''Sales'', 1::int), (u '' sales '', 2), (u ''Tax'', 3), (u ''SALES'', 4)] =
     [(u ''Sales'', 1), (u ''Tax'', 3)]"
  by (simp add: dedup_def u_def py_lower_def ascii_lower_def strip_def lstrip_def rstrip_def
      is_space_def)

lemma all_years_example:
  "parse_file_all_years id [[(u ''2025'', [(u ''Sales'', 1::int), (u ''sales'', 2)])]] =
     [(u ''2025'', [(u ''Sales'', 1)])]"
  by (simp add: parse_file_all_years_def merge_sheet_def dedup_def u_def py_lower_def
      ascii_lower_def strip_def lstrip_def rstrip_def is_space_def)

lemma duplicate_keys_example:
  "\<not> distinct (map (label_key id) [(u ''Sales'', 1::int), (u ''sales'', 2)])"
  by (simp add: label_key_def u_def py_lower_def ascii_lower_def strip_def lstrip_def rstrip_def
      is_space_def)

theorem dedup_first_wins_witness:
  "dedup id [(u ''Sales'', 1::int), (u '' sales '', 2), (u ''Tax'', 3), (u ''SALES'', 4)] =
     [(u ''Sales'', 1), (u ''Tax'', 3)] \<and>
   distinct (map (label_key id) [(u ''Sales'', 1::int), (u ''Tax'', 3)]) \<and>
   parse_file_all_years id [[(u ''2025'', [(u ''Sales'', 1::int), (u ''sales'', 2)])]] =
     [(u ''2025'', [(u ''Sales'', 1)])] \<and>
   parse_file_one_year id [[(u ''Sales'', 1::int), (u ''sales'', 2)]] =
     [(u ''Sales'', 1), (u ''sales'', 2)] \<and>
   \<not> distinct (map (label_key id) [(u ''Sales'', 1::int), (u ''sales'', 2)])"
proof -
  note w = dedup_first_wins [of id "[(u ''Sales'', 1::int), (u '' sales '', 2), (u ''Tax'', 3),
          (u ''SALES'', 4)]" "[]" "[]" "[[(u ''Sales'', 1::int), (u ''sales'', 2)]]"]
  from w have d: "distinct (map (label_key id)
          (dedup id [(u ''Sales'', 1::int), (u '' sales '', 2), (u ''Tax'', 3), (u ''SALES'', 4)]))"
    by (elim conjE)
  from w have o: "parse_file_one_year id [[(u ''Sales'', 1::int), (u ''sales'', 2)]] =
           concat [[(u ''Sales'', 1::int), (u ''sales'', 2)]]"
    by (elim conjE)
  from d o show ?thesis
    using all_years_example duplicate_keys_example
    by (simp only: dedup_example simp_thms concat.simps append_Nil2)
qed
section \<open>Properties of the year headers\<close>

lemma str_nat_small: "n < 10 \<Longrightarrow> str_nat n = [48 + n]"
  by (simp add: str_nat.simps)

lemma str_nat_big: "10 \<le> n \<Longrightarrow> str_nat n = str_nat (n div 10) @ [48 + n mod 10]"
  by (subst str_nat.simps) simp

lemmas year_eval = u_def strip_def lstrip_def rstrip_def is_space_def is_digit_def is_word_def
  decimal_value_def decimal_starts_def re_digit_def
  is_sep_def boundary_before_def boundary_after_def pattern1_def pattern2_def pattern3_def
  pattern4_def extract_year_from_header_def str_nat_small str_nat_big zfill_def year_of_int_def
  trunc_def

lemma year_fy_space: "extract_year_from_header alnum (CText (u ''FY 2025'')) = Some (u ''2025'')"
  by (simp add: year_eval)

lemma year_fy_nospace:
  "extract_year_from_header alnum (CText (u ''FY2025'')) = Some (u ''FY2025'')"
  by (simp add: year_eval)

lemma year_fy_1999: "extract_year_from_header alnum (CText (u ''FY 1999'')) = Some (u ''FY1999'')"
  by (simp add: year_eval)

lemma year_date: "extract_year_from_header alnum (CDate 2025 3 31) = Some (u ''2025-03-31'')"
  by (simp add: year_eval)

text \<open>Beyond ASCII: a year written with the full-width digits U+FF12 and U+FF15 is found,
  and a year followed by an alphanumeric character (here U+5E74) is not.\<close>

lemma year_fullwidth:
  "extract_year_from_header alnum (CText [50, 48, 65298, 65301]) = Some [50, 48, 65298, 65301]"
  by (simp add: year_eval)

lemma year_before_letter:
  "alnum 24180 \<Longrightarrow> extract_year_from_header alnum (CText (u ''2025'' @ [24180])) = None"
  by (simp add: year_eval)

lemma dict_set_absent: "k \<notin> fst ` set d \<Longrightarrow> dict_set d k v = d @ [(k, v)]"
  by (induction d) auto

lemma fold_default_labels:
  "distinct cols \<Longrightarrow> set cols \<inter> fst ` set yh = {} \<Longrightarrow>
   fold (\<lambda>(i, col_idx) yh. dict_set yh col_idx (f i)) (enumerate n cols) yh =
     yh @ map (\<lambda>(i, col_idx). (col_idx, f i)) (enumerate n cols)"
proof (induction cols arbitrary: n yh)
  case Nil
  show ?case by simp
next
  case (Cons c cols)
  have a: "dict_set yh c (f n) = yh @ [(c, f n)]" using Cons.prems by (simp add: dict_set_absent)
  have "set cols \<inter> fst ` set (yh @ [(c, f n)]) = {}" using Cons.prems by auto
  with Cons.IH [of "yh @ [(c, f n)]" "Suc n"] Cons.prems a show ?case by simp
qed

lemma scan_cells_none:
  "list_all (\<lambda>col. col < length row \<longrightarrow> extract_year_from_header alnum (row ! col) = None) cols \<Longrightarrow>
   fold (scan_cell alnum row) cols yh = yh"
  by (induction cols arbitrary: yh) (auto simp: scan_cell_def)

lemma scan_row_none:
  assumes "list_all (\<lambda>col.
        0 \<le> int (header_row_idx l) + off \<longrightarrow> int (header_row_idx l) + off < int (length grid) \<longrightarrow>
        col < length (grid ! nat (int (header_row_idx l) + off)) \<longrightarrow>
        extract_year_from_header alnum (grid ! nat (int (header_row_idx l) + off) ! col) = None)
          (value_cols l)"
  shows "scan_row alnum grid l off yh = yh"
proof (cases "0 \<le> int (header_row_idx l) + off \<and> int (header_row_idx l) + off < int (length grid)")
  case True
  with assms have "list_all (\<lambda>col. col < length (grid ! nat (int (header_row_idx l) + off)) \<longrightarrow>
        extract_year_from_header alnum (grid ! nat (int (header_row_idx l) + off) ! col) = None)
          (value_cols l)"
    by (simp add: list_all_iff)
  from scan_cells_none [OF this] True show ?thesis by (simp add: scan_row_def Let_def)
next
  case False
  then show ?thesis by (auto simp: scan_row_def Let_def)
qed

lemma scan_none:
  "no_year_in alnum grid l \<Longrightarrow> fold (scan_row alnum grid l) [0, - 1, 1, - 2] [] = []"
  by (simp add: no_year_in_def scan_row_none)

lemma sorted_distinct: "sorted_wrt (<) (xs :: nat list) \<Longrightarrow> distinct xs"
  by (simp add: strict_sorted_iff)

lemma default_year_headers:
  assumes "no_year_in alnum grid l" and "sorted_wrt (<) (value_cols l)"
  shows "extract_year_headers alnum grid l =
           map (\<lambda>(i, col_idx). (col_idx, default_label i)) (enumerate 0 (value_cols l))"
proof -
  have d: "distinct (value_cols l)" using assms(2) by (rule sorted_distinct)
  have "fold (\<lambda>(i, col_idx) yh. dict_set yh col_idx (default_label i))
          (enumerate 0 (value_cols l)) [] =
        [] @ map (\<lambda>(i, col_idx). (col_idx, default_label i)) (enumerate 0 (value_cols l))"
    by (rule fold_default_labels [OF d]) simp
  then show ?thesis
    unfolding extract_year_headers_def scan_none [OF assms(1)] by simp
qed

lemma sorted_date_cols: "sorted_wrt (<) (date_cols row)"
proof -
  have "sorted_wrt (\<lambda>a b. fst a < fst b) (enumerate 0 row)"
    using sorted_wrt_map [of "(<)" fst "enumerate 0 row"] by simp
  then have "sorted_wrt (\<lambda>a b. fst a < fst b) (filter (\<lambda>(j, c). is_year_cell c) (enumerate 0 row))"
    by (rule sorted_wrt_filter)
  then show ?thesis by (simp add: date_cols_def sorted_wrt_map)
qed

lemma sorted_generic_value_cols: "sorted_wrt (<) (generic_value_cols cnt lc mc)"
  by (simp add: generic_value_cols_def Let_def sorted_wrt_filter)


text \<open>
  \<^bold>\<open>C3.\<close> The identifiers that \<open>_extract_year_from_header\<close> yields, whatever the
  alphanumeric characters beyond ASCII are. A header cell with the text \<open>FY 2025\<close> yields
  \<open>2025\<close> and not \<open>FY2025\<close>: the pattern for a bare year is tried before the pattern for a
  fiscal year, and it matches the year after the space. The fiscal-year pattern allows
  the space, and the texts \<open>FY2025\<close> and \<open>FY 1999\<close>, which the bare-year pattern does not
  match, yield \<open>FY2025\<close> and \<open>FY1999\<close>. A date cell with the value 2025-03-31 yields
  \<open>2025-03-31\<close>. When no cell of the value columns yields an identifier in the header
  row, the row above it, the row below it and the second row above it, and the value
  columns are in increasing order, the columns get the labels \<open>Year 1\<close>, \<open>Year 2\<close>, ... in
  that order. The value columns that the layout detection produces are in increasing
  order, from left to right.
\<close>

theorem year_header_extraction:
  "extract_year_from_header alnum (CText (u ''FY 2025'')) = Some (u ''2025'') \<and>
   extract_year_from_header alnum (CText (u ''FY2025'')) = Some (u ''FY2025'') \<and>
   extract_year_from_header alnum (CText (u ''FY 1999'')) = Some (u ''FY1999'') \<and>
   extract_year_from_header alnum (CDate 2025 3 31) = Some (u ''2025-03-31'') \<and>
   (no_year_in alnum grid l \<and> sorted_wrt (<) (value_cols l) \<longrightarrow>
      extract_year_headers alnum grid l =
        map (\<lambda>(i, col_idx). (col_idx, u ''Year '' @ str_nat (i + 1)))
          (enumerate 0 (value_cols l))) \<and>
   sorted_wrt (<) (date_cols row) \<and>
   sorted_wrt (<) (generic_value_cols col_num_count lc max_cols)"
  using year_fy_space year_fy_nospace year_fy_1999 year_date
    default_year_headers [of alnum grid l] sorted_date_cols sorted_generic_value_cols
  by (simp add: default_label_def)

lemma example_value_cols: "value_cols example_layout = [1, 2]"
  by (simp add: example_layout_def generic_value_cols_def upt_rec)

lemma example_header_row: "header_row_idx example_layout = 0"
  by (simp add: example_layout_def header_row_idx_def)

lemma example_no_year: "no_year_in no_alnum example_grid example_layout"
  unfolding no_year_in_def example_value_cols example_header_row
  by (simp add: example_grid_def year_eval)

theorem year_header_extraction_witness:
  "no_year_in no_alnum example_grid example_layout \<and>
   sorted_wrt (<) (value_cols example_layout) \<and>
   extract_year_headers no_alnum example_grid example_layout =
     [(1, u ''Year 1''), (2, u ''Year 2'')] \<and>
   extract_year_from_header no_alnum (CText (u ''FY 2025'')) = Some (u ''2025'') \<and>
   u ''2025'' \<noteq> u ''FY2025''"
  using year_header_extraction [of no_alnum example_grid example_layout "[]" "[]" 0 0]
    example_no_year
  by (simp add: example_value_cols enumerate_eq_zip upt_rec str_nat_small u_def)
end
